theory Spec2Isabelle
  imports Main "HOL-Library.Word" "HOL-Library.AList"
begin

section \<open>Text\<close>

text \<open>
  Command text is a Python \<open>str\<close>, a sequence of Unicode code points. A \<open>str\<close> is
  represented here by its UTF-8 encoding, the form in which it crosses the socket: a
  \<open>string\<close> is a list of bytes, and a literal such as \<open>''OK#MOTOR''\<close> stands for itself.
  The methods the server calls on text work on code points, so the model takes the code
  points of the text (\<open>code_points\<close>), applies the method and writes the result as UTF-8
  again (\<open>utf8_of\<close>). Text taken from the command channel is always well-formed (the
  read loop decodes it, and drops the connection when that fails); for totality
  \<open>code_points\<close> reads a byte outside any well-formed sequence as the code point of the
  same number.

  The character tables are those of Unicode 14.0, as CPython 3.11 carries them. \<open>int()\<close>
  is modelled without the digit-count limit of recent interpreters, which no token read
  from the command channel (at most 1024 bytes per read) can reach.
\<close>

type_synonym codepoint = int

definition utf8_seq :: "int \<Rightarrow> string \<Rightarrow> (codepoint \<times> nat) option" where
  \<comment> \<open>the code point of the well-formed sequence that begins with the lead byte \<open>n\<close> and
      goes on in \<open>bs\<close>, with the number of bytes it takes from \<open>bs\<close>\<close>
  "utf8_seq n bs =
     (let c = map of_char (take 3 bs) :: int list;
          cont = (\<lambda>k. k < length c \<and> 0x80 \<le> c ! k \<and> c ! k \<le> 0xBF);
          v2 = (n - 0xC0) * 64 + (c ! 0 - 0x80);
          v3 = (n - 0xE0) * 4096 + (c ! 0 - 0x80) * 64 + (c ! 1 - 0x80);
          v4 = (n - 0xF0) * 262144 + (c ! 0 - 0x80) * 4096 + (c ! 1 - 0x80) * 64 + (c ! 2 - 0x80)
      in if 0xC2 \<le> n \<and> n \<le> 0xDF \<and> cont 0 then Some (v2, 1)
         else if 0xE0 \<le> n \<and> n \<le> 0xEF \<and> cont 0 \<and> cont 1 \<and>
                 0x800 \<le> v3 \<and> \<not> (0xD800 \<le> v3 \<and> v3 \<le> 0xDFFF) then Some (v3, 2)
         else if 0xF0 \<le> n \<and> n \<le> 0xF4 \<and> cont 0 \<and> cont 1 \<and> cont 2 \<and>
                 0x10000 \<le> v4 \<and> v4 \<le> 0x10FFFF then Some (v4, 3)
         else None)"

function code_points :: "string \<Rightarrow> codepoint list" where
  "code_points [] = []"
| "code_points (b # bs) =
     (let n = (of_char b :: int) in
      if n < 0x80 then n # code_points bs
      else case utf8_seq n bs of
             Some (v, k) \<Rightarrow> v # code_points (drop k bs)
           | None \<Rightarrow> n # code_points bs)"
  by pat_completeness auto
termination
  by (relation "measure length") auto

definition utf8_of_cp :: "codepoint \<Rightarrow> string" where
  "utf8_of_cp c =
     (if c < 0x80 then [char_of c]
      else if c < 0x800 then [char_of (0xC0 + c div 64), char_of (0x80 + c mod 64)]
      else if c < 0x10000 then
        [char_of (0xE0 + c div 4096), char_of (0x80 + c div 64 mod 64), char_of (0x80 + c mod 64)]
      else
        [char_of (0xF0 + c div 262144), char_of (0x80 + c div 4096 mod 64),
         char_of (0x80 + c div 64 mod 64), char_of (0x80 + c mod 64)])"

definition utf8_of :: "codepoint list \<Rightarrow> string" where
  "utf8_of cs = concat (map utf8_of_cp cs)"

definition in_runs :: "codepoint \<Rightarrow> (codepoint \<times> codepoint) list \<Rightarrow> bool" where
  \<comment> \<open>membership in a table of ranges, bounds included\<close>
  "in_runs c runs = list_ex (\<lambda>(lo, hi). lo \<le> c \<and> c \<le> hi) runs"

definition space_runs :: "(codepoint \<times> codepoint) list" where
  \<comment> \<open>the code points \<open>str.isspace\<close> accepts\<close>
  "space_runs =
    [(0x9, 0xD), (0x1C, 0x20), (0x85, 0x85), (0xA0, 0xA0), (0x1680, 0x1680), (0x2000, 0x200A),
     (0x2028, 0x2029), (0x202F, 0x202F), (0x205F, 0x205F), (0x3000, 0x3000)]"

definition isspace :: "codepoint \<Rightarrow> bool" where
  "isspace c = in_runs c space_runs"

definition strip :: "string \<Rightarrow> string" where
  "strip s = utf8_of (rev (dropWhile isspace (rev (dropWhile isspace (code_points s)))))"

text \<open>
  The separator \<open>#\<close> is one byte in UTF-8, and no byte of a longer sequence equals it, so
  splitting the bytes at it splits the text at it.
\<close>

fun split_from :: "char \<Rightarrow> string \<Rightarrow> string \<Rightarrow> string list" where
  \<comment> \<open>the token being read is kept reversed in the second argument\<close>
  "split_from sep cur [] = [rev cur]"
| "split_from sep cur (c # cs) =
     (if c = sep then rev cur # split_from sep [] cs else split_from sep (c # cur) cs)"

definition split :: "char \<Rightarrow> string \<Rightarrow> string list" where
  \<comment> \<open>\<open>s.split(sep)\<close> with a one-character ASCII separator\<close>
  "split sep s = split_from sep [] s"

definition upper_special :: "(codepoint \<times> codepoint list) list" where
  \<comment> \<open>the code points whose upper case is more than one code point\<close>
  "upper_special =
    [(0xDF, [0x53, 0x53]), (0x149, [0x2BC, 0x4E]), (0x1F0, [0x4A, 0x30C]),
     (0x390, [0x399, 0x308, 0x301]), (0x3B0, [0x3A5, 0x308, 0x301]), (0x587, [0x535, 0x552]),
     (0x1E96, [0x48, 0x331]), (0x1E97, [0x54, 0x308]), (0x1E98, [0x57, 0x30A]),
     (0x1E99, [0x59, 0x30A]), (0x1E9A, [0x41, 0x2BE]), (0x1F50, [0x3A5, 0x313]),
     (0x1F52, [0x3A5, 0x313, 0x300]), (0x1F54, [0x3A5, 0x313, 0x301]),
     (0x1F56, [0x3A5, 0x313, 0x342]), (0x1F80, [0x1F08, 0x399]), (0x1F81, [0x1F09, 0x399]),
     (0x1F82, [0x1F0A, 0x399]), (0x1F83, [0x1F0B, 0x399]), (0x1F84, [0x1F0C, 0x399]),
     (0x1F85, [0x1F0D, 0x399]), (0x1F86, [0x1F0E, 0x399]), (0x1F87, [0x1F0F, 0x399]),
     (0x1F88, [0x1F08, 0x399]), (0x1F89, [0x1F09, 0x399]), (0x1F8A, [0x1F0A, 0x399]),
     (0x1F8B, [0x1F0B, 0x399]), (0x1F8C, [0x1F0C, 0x399]), (0x1F8D, [0x1F0D, 0x399]),
     (0x1F8E, [0x1F0E, 0x399]), (0x1F8F, [0x1F0F, 0x399]), (0x1F90, [0x1F28, 0x399]),
     (0x1F91, [0x1F29, 0x399]), (0x1F92, [0x1F2A, 0x399]), (0x1F93, [0x1F2B, 0x399]),
     (0x1F94, [0x1F2C, 0x399]), (0x1F95, [0x1F2D, 0x399]), (0x1F96, [0x1F2E, 0x399]),
     (0x1F97, [0x1F2F, 0x399]), (0x1F98, [0x1F28, 0x399]), (0x1F99, [0x1F29, 0x399]),
     (0x1F9A, [0x1F2A, 0x399]), (0x1F9B, [0x1F2B, 0x399]), (0x1F9C, [0x1F2C, 0x399]),
     (0x1F9D, [0x1F2D, 0x399]), (0x1F9E, [0x1F2E, 0x399]), (0x1F9F, [0x1F2F, 0x399]),
     (0x1FA0, [0x1F68, 0x399]), (0x1FA1, [0x1F69, 0x399]), (0x1FA2, [0x1F6A, 0x399]),
     (0x1FA3, [0x1F6B, 0x399]), (0x1FA4, [0x1F6C, 0x399]), (0x1FA5, [0x1F6D, 0x399]),
     (0x1FA6, [0x1F6E, 0x399]), (0x1FA7, [0x1F6F, 0x399]), (0x1FA8, [0x1F68, 0x399]),
     (0x1FA9, [0x1F69, 0x399]), (0x1FAA, [0x1F6A, 0x399]), (0x1FAB, [0x1F6B, 0x399]),
     (0x1FAC, [0x1F6C, 0x399]), (0x1FAD, [0x1F6D, 0x399]), (0x1FAE, [0x1F6E, 0x399]),
     (0x1FAF, [0x1F6F, 0x399]), (0x1FB2, [0x1FBA, 0x399]), (0x1FB3, [0x391, 0x399]),
     (0x1FB4, [0x386, 0x399]), (0x1FB6, [0x391, 0x342]), (0x1FB7, [0x391, 0x342, 0x399]),
     (0x1FBC, [0x391, 0x399]), (0x1FC2, [0x1FCA, 0x399]), (0x1FC3, [0x397, 0x399]),
     (0x1FC4, [0x389, 0x399]), (0x1FC6, [0x397, 0x342]), (0x1FC7, [0x397, 0x342, 0x399]),
     (0x1FCC, [0x397, 0x399]), (0x1FD2, [0x399, 0x308, 0x300]),
     (0x1FD3, [0x399, 0x308, 0x301]), (0x1FD6, [0x399, 0x342]),
     (0x1FD7, [0x399, 0x308, 0x342]), (0x1FE2, [0x3A5, 0x308, 0x300]),
     (0x1FE3, [0x3A5, 0x308, 0x301]), (0x1FE4, [0x3A1, 0x313]), (0x1FE6, [0x3A5, 0x342]),
     (0x1FE7, [0x3A5, 0x308, 0x342]), (0x1FF2, [0x1FFA, 0x399]), (0x1FF3, [0x3A9, 0x399]),
     (0x1FF4, [0x38F, 0x399]), (0x1FF6, [0x3A9, 0x342]), (0x1FF7, [0x3A9, 0x342, 0x399]),
     (0x1FFC, [0x3A9, 0x399]), (0xFB00, [0x46, 0x46]), (0xFB01, [0x46, 0x49]),
     (0xFB02, [0x46, 0x4C]), (0xFB03, [0x46, 0x46, 0x49]), (0xFB04, [0x46, 0x46, 0x4C]),
     (0xFB05, [0x53, 0x54]), (0xFB06, [0x53, 0x54]), (0xFB13, [0x544, 0x546]),
     (0xFB14, [0x544, 0x535]), (0xFB15, [0x544, 0x53B]), (0xFB16, [0x54E, 0x546]),
     (0xFB17, [0x544, 0x53D])]"

definition upper_runs :: "(codepoint \<times> codepoint \<times> int \<times> codepoint) list" where
  \<comment> \<open>\<open>(lo, hi, step, to)\<close>: every \<open>step\<close>-th code point from \<open>lo\<close> up to \<open>hi\<close> has the upper
      case \<open>to\<close> plus its distance from \<open>lo\<close>\<close>
  "upper_runs =
    [(0x61, 0x7A, 1, 0x41), (0xB5, 0xB5, 1, 0x39C), (0xE0, 0xF6, 1, 0xC0),
     (0xF8, 0xFE, 1, 0xD8), (0xFF, 0xFF, 1, 0x178), (0x101, 0x12F, 2, 0x100),
     (0x131, 0x131, 1, 0x49), (0x133, 0x137, 2, 0x132), (0x13A, 0x148, 2, 0x139),
     (0x14B, 0x177, 2, 0x14A), (0x17A, 0x17E, 2, 0x179), (0x17F, 0x17F, 1, 0x53),
     (0x180, 0x180, 1, 0x243), (0x183, 0x185, 2, 0x182), (0x188, 0x188, 1, 0x187),
     (0x18C, 0x18C, 1, 0x18B), (0x192, 0x192, 1, 0x191), (0x195, 0x195, 1, 0x1F6),
     (0x199, 0x199, 1, 0x198), (0x19A, 0x19A, 1, 0x23D), (0x19E, 0x19E, 1, 0x220),
     (0x1A1, 0x1A5, 2, 0x1A0), (0x1A8, 0x1A8, 1, 0x1A7), (0x1AD, 0x1AD, 1, 0x1AC),
     (0x1B0, 0x1B0, 1, 0x1AF), (0x1B4, 0x1B6, 2, 0x1B3), (0x1B9, 0x1B9, 1, 0x1B8),
     (0x1BD, 0x1BD, 1, 0x1BC), (0x1BF, 0x1BF, 1, 0x1F7), (0x1C5, 0x1C5, 1, 0x1C4),
     (0x1C6, 0x1C6, 1, 0x1C4), (0x1C8, 0x1C8, 1, 0x1C7), (0x1C9, 0x1C9, 1, 0x1C7),
     (0x1CB, 0x1CB, 1, 0x1CA), (0x1CC, 0x1CC, 1, 0x1CA), (0x1CE, 0x1DC, 2, 0x1CD),
     (0x1DD, 0x1DD, 1, 0x18E), (0x1DF, 0x1EF, 2, 0x1DE), (0x1F2, 0x1F2, 1, 0x1F1),
     (0x1F3, 0x1F3, 1, 0x1F1), (0x1F5, 0x1F5, 1, 0x1F4), (0x1F9, 0x21F, 2, 0x1F8),
     (0x223, 0x233, 2, 0x222), (0x23C, 0x23C, 1, 0x23B), (0x23F, 0x240, 1, 0x2C7E),
     (0x242, 0x242, 1, 0x241), (0x247, 0x24F, 2, 0x246), (0x250, 0x250, 1, 0x2C6F),
     (0x251, 0x251, 1, 0x2C6D), (0x252, 0x252, 1, 0x2C70), (0x253, 0x253, 1, 0x181),
     (0x254, 0x254, 1, 0x186), (0x256, 0x257, 1, 0x189), (0x259, 0x259, 1, 0x18F),
     (0x25B, 0x25B, 1, 0x190), (0x25C, 0x25C, 1, 0xA7AB), (0x260, 0x260, 1, 0x193),
     (0x261, 0x261, 1, 0xA7AC), (0x263, 0x263, 1, 0x194), (0x265, 0x265, 1, 0xA78D),
     (0x266, 0x266, 1, 0xA7AA), (0x268, 0x268, 1, 0x197), (0x269, 0x269, 1, 0x196),
     (0x26A, 0x26A, 1, 0xA7AE), (0x26B, 0x26B, 1, 0x2C62), (0x26C, 0x26C, 1, 0xA7AD),
     (0x26F, 0x26F, 1, 0x19C), (0x271, 0x271, 1, 0x2C6E), (0x272, 0x272, 1, 0x19D),
     (0x275, 0x275, 1, 0x19F), (0x27D, 0x27D, 1, 0x2C64), (0x280, 0x280, 1, 0x1A6),
     (0x282, 0x282, 1, 0xA7C5), (0x283, 0x283, 1, 0x1A9), (0x287, 0x287, 1, 0xA7B1),
     (0x288, 0x288, 1, 0x1AE), (0x289, 0x289, 1, 0x244), (0x28A, 0x28B, 1, 0x1B1),
     (0x28C, 0x28C, 1, 0x245), (0x292, 0x292, 1, 0x1B7), (0x29D, 0x29D, 1, 0xA7B2),
     (0x29E, 0x29E, 1, 0xA7B0), (0x345, 0x345, 1, 0x399), (0x371, 0x373, 2, 0x370),
     (0x377, 0x377, 1, 0x376), (0x37B, 0x37D, 1, 0x3FD), (0x3AC, 0x3AC, 1, 0x386),
     (0x3AD, 0x3AF, 1, 0x388), (0x3B1, 0x3C1, 1, 0x391), (0x3C2, 0x3C2, 1, 0x3A3),
     (0x3C3, 0x3CB, 1, 0x3A3), (0x3CC, 0x3CC, 1, 0x38C), (0x3CD, 0x3CE, 1, 0x38E),
     (0x3D0, 0x3D0, 1, 0x392), (0x3D1, 0x3D1, 1, 0x398), (0x3D5, 0x3D5, 1, 0x3A6),
     (0x3D6, 0x3D6, 1, 0x3A0), (0x3D7, 0x3D7, 1, 0x3CF), (0x3D9, 0x3EF, 2, 0x3D8),
     (0x3F0, 0x3F0, 1, 0x39A), (0x3F1, 0x3F1, 1, 0x3A1), (0x3F2, 0x3F2, 1, 0x3F9),
     (0x3F3, 0x3F3, 1, 0x37F), (0x3F5, 0x3F5, 1, 0x395), (0x3F8, 0x3F8, 1, 0x3F7),
     (0x3FB, 0x3FB, 1, 0x3FA), (0x430, 0x44F, 1, 0x410), (0x450, 0x45F, 1, 0x400),
     (0x461, 0x481, 2, 0x460), (0x48B, 0x4BF, 2, 0x48A), (0x4C2, 0x4CE, 2, 0x4C1),
     (0x4CF, 0x4CF, 1, 0x4C0), (0x4D1, 0x52F, 2, 0x4D0), (0x561, 0x586, 1, 0x531),
     (0x10D0, 0x10FA, 1, 0x1C90), (0x10FD, 0x10FF, 1, 0x1CBD), (0x13F8, 0x13FD, 1, 0x13F0),
     (0x1C80, 0x1C80, 1, 0x412), (0x1C81, 0x1C81, 1, 0x414), (0x1C82, 0x1C82, 1, 0x41E),
     (0x1C83, 0x1C84, 1, 0x421), (0x1C85, 0x1C85, 1, 0x422), (0x1C86, 0x1C86, 1, 0x42A),
     (0x1C87, 0x1C87, 1, 0x462), (0x1C88, 0x1C88, 1, 0xA64A), (0x1D79, 0x1D79, 1, 0xA77D),
     (0x1D7D, 0x1D7D, 1, 0x2C63), (0x1D8E, 0x1D8E, 1, 0xA7C6), (0x1E01, 0x1E95, 2, 0x1E00),
     (0x1E9B, 0x1E9B, 1, 0x1E60), (0x1EA1, 0x1EFF, 2, 0x1EA0), (0x1F00, 0x1F07, 1, 0x1F08),
     (0x1F10, 0x1F15, 1, 0x1F18), (0x1F20, 0x1F27, 1, 0x1F28), (0x1F30, 0x1F37, 1, 0x1F38),
     (0x1F40, 0x1F45, 1, 0x1F48), (0x1F51, 0x1F57, 2, 0x1F59), (0x1F60, 0x1F67, 1, 0x1F68),
     (0x1F70, 0x1F71, 1, 0x1FBA), (0x1F72, 0x1F75, 1, 0x1FC8), (0x1F76, 0x1F77, 1, 0x1FDA),
     (0x1F78, 0x1F79, 1, 0x1FF8), (0x1F7A, 0x1F7B, 1, 0x1FEA), (0x1F7C, 0x1F7D, 1, 0x1FFA),
     (0x1FB0, 0x1FB1, 1, 0x1FB8), (0x1FBE, 0x1FBE, 1, 0x399), (0x1FD0, 0x1FD1, 1, 0x1FD8),
     (0x1FE0, 0x1FE1, 1, 0x1FE8), (0x1FE5, 0x1FE5, 1, 0x1FEC), (0x214E, 0x214E, 1, 0x2132),
     (0x2170, 0x217F, 1, 0x2160), (0x2184, 0x2184, 1, 0x2183), (0x24D0, 0x24E9, 1, 0x24B6),
     (0x2C30, 0x2C5F, 1, 0x2C00), (0x2C61, 0x2C61, 1, 0x2C60), (0x2C65, 0x2C65, 1, 0x23A),
     (0x2C66, 0x2C66, 1, 0x23E), (0x2C68, 0x2C6C, 2, 0x2C67), (0x2C73, 0x2C73, 1, 0x2C72),
     (0x2C76, 0x2C76, 1, 0x2C75), (0x2C81, 0x2CE3, 2, 0x2C80), (0x2CEC, 0x2CEE, 2, 0x2CEB),
     (0x2CF3, 0x2CF3, 1, 0x2CF2), (0x2D00, 0x2D25, 1, 0x10A0), (0x2D27, 0x2D27, 1, 0x10C7),
     (0x2D2D, 0x2D2D, 1, 0x10CD), (0xA641, 0xA66D, 2, 0xA640), (0xA681, 0xA69B, 2, 0xA680),
     (0xA723, 0xA72F, 2, 0xA722), (0xA733, 0xA76F, 2, 0xA732), (0xA77A, 0xA77C, 2, 0xA779),
     (0xA77F, 0xA787, 2, 0xA77E), (0xA78C, 0xA78C, 1, 0xA78B), (0xA791, 0xA793, 2, 0xA790),
     (0xA794, 0xA794, 1, 0xA7C4), (0xA797, 0xA7A9, 2, 0xA796), (0xA7B5, 0xA7C3, 2, 0xA7B4),
     (0xA7C8, 0xA7CA, 2, 0xA7C7), (0xA7D1, 0xA7D1, 1, 0xA7D0), (0xA7D7, 0xA7D9, 2, 0xA7D6),
     (0xA7F6, 0xA7F6, 1, 0xA7F5), (0xAB53, 0xAB53, 1, 0xA7B3), (0xAB70, 0xABBF, 1, 0x13A0),
     (0xFF41, 0xFF5A, 1, 0xFF21), (0x10428, 0x1044F, 1, 0x10400),
     (0x104D8, 0x104FB, 1, 0x104B0), (0x10597, 0x105A1, 1, 0x10570),
     (0x105A3, 0x105B1, 1, 0x1057C), (0x105B3, 0x105B9, 1, 0x1058C),
     (0x105BB, 0x105BC, 1, 0x10594), (0x10CC0, 0x10CF2, 1, 0x10C80),
     (0x118C0, 0x118DF, 1, 0x118A0), (0x16E60, 0x16E7F, 1, 0x16E40),
     (0x1E922, 0x1E943, 1, 0x1E900)]"

definition upper_cp :: "codepoint \<Rightarrow> codepoint list" where
  \<comment> \<open>the upper case of one code point; a code point the tables do not list is its own\<close>
  "upper_cp c =
     (if c < 128 then (if 97 \<le> c \<and> c \<le> 122 then [c - 32] else [c])
      else case map_of upper_special c of
             Some u \<Rightarrow> u
           | None \<Rightarrow>
               (case find (\<lambda>(lo, hi, step, to). lo \<le> c \<and> c \<le> hi \<and> (c - lo) mod step = 0) upper_runs of
                  Some (lo, hi, step, to) \<Rightarrow> [to + (c - lo)]
                | None \<Rightarrow> [c]))"

definition upper :: "string \<Rightarrow> string" where
  "upper s = utf8_of (concat (map upper_cp (code_points s)))"

datatype py_error = ValueError string | StructError string | OSError string | AttributeError string

fun str_of_error :: "py_error \<Rightarrow> string" where
  \<comment> \<open>\<open>str(e)\<close>\<close>
  "str_of_error (ValueError m) = m"
| "str_of_error (StructError m) = m"
| "str_of_error (OSError m) = m"
| "str_of_error (AttributeError m) = m"

definition unprintable_runs :: "(codepoint \<times> codepoint) list" where
  \<comment> \<open>the code points from 128 on that \<open>str.isprintable\<close> rejects\<close>
  "unprintable_runs =
    [(0x80, 0xA0), (0xAD, 0xAD), (0x378, 0x379), (0x380, 0x383), (0x38B, 0x38B),
     (0x38D, 0x38D), (0x3A2, 0x3A2), (0x530, 0x530), (0x557, 0x558), (0x58B, 0x58C),
     (0x590, 0x590), (0x5C8, 0x5CF), (0x5EB, 0x5EE), (0x5F5, 0x605), (0x61C, 0x61C),
     (0x6DD, 0x6DD), (0x70E, 0x70F), (0x74B, 0x74C), (0x7B2, 0x7BF), (0x7FB, 0x7FC),
     (0x82E, 0x82F), (0x83F, 0x83F), (0x85C, 0x85D), (0x85F, 0x85F), (0x86B, 0x86F),
     (0x88F, 0x897), (0x8E2, 0x8E2), (0x984, 0x984), (0x98D, 0x98E), (0x991, 0x992),
     (0x9A9, 0x9A9), (0x9B1, 0x9B1), (0x9B3, 0x9B5), (0x9BA, 0x9BB), (0x9C5, 0x9C6),
     (0x9C9, 0x9CA), (0x9CF, 0x9D6), (0x9D8, 0x9DB), (0x9DE, 0x9DE), (0x9E4, 0x9E5),
     (0x9FF, 0xA00), (0xA04, 0xA04), (0xA0B, 0xA0E), (0xA11, 0xA12), (0xA29, 0xA29),
     (0xA31, 0xA31), (0xA34, 0xA34), (0xA37, 0xA37), (0xA3A, 0xA3B), (0xA3D, 0xA3D),
     (0xA43, 0xA46), (0xA49, 0xA4A), (0xA4E, 0xA50), (0xA52, 0xA58), (0xA5D, 0xA5D),
     (0xA5F, 0xA65), (0xA77, 0xA80), (0xA84, 0xA84), (0xA8E, 0xA8E), (0xA92, 0xA92),
     (0xAA9, 0xAA9), (0xAB1, 0xAB1), (0xAB4, 0xAB4), (0xABA, 0xABB), (0xAC6, 0xAC6),
     (0xACA, 0xACA), (0xACE, 0xACF), (0xAD1, 0xADF), (0xAE4, 0xAE5), (0xAF2, 0xAF8),
     (0xB00, 0xB00), (0xB04, 0xB04), (0xB0D, 0xB0E), (0xB11, 0xB12), (0xB29, 0xB29),
     (0xB31, 0xB31), (0xB34, 0xB34), (0xB3A, 0xB3B), (0xB45, 0xB46), (0xB49, 0xB4A),
     (0xB4E, 0xB54), (0xB58, 0xB5B), (0xB5E, 0xB5E), (0xB64, 0xB65), (0xB78, 0xB81),
     (0xB84, 0xB84), (0xB8B, 0xB8D), (0xB91, 0xB91), (0xB96, 0xB98), (0xB9B, 0xB9B),
     (0xB9D, 0xB9D), (0xBA0, 0xBA2), (0xBA5, 0xBA7), (0xBAB, 0xBAD), (0xBBA, 0xBBD),
     (0xBC3, 0xBC5), (0xBC9, 0xBC9), (0xBCE, 0xBCF), (0xBD1, 0xBD6), (0xBD8, 0xBE5),
     (0xBFB, 0xBFF), (0xC0D, 0xC0D), (0xC11, 0xC11), (0xC29, 0xC29), (0xC3A, 0xC3B),
     (0xC45, 0xC45), (0xC49, 0xC49), (0xC4E, 0xC54), (0xC57, 0xC57), (0xC5B, 0xC5C),
     (0xC5E, 0xC5F), (0xC64, 0xC65), (0xC70, 0xC76), (0xC8D, 0xC8D), (0xC91, 0xC91),
     (0xCA9, 0xCA9), (0xCB4, 0xCB4), (0xCBA, 0xCBB), (0xCC5, 0xCC5), (0xCC9, 0xCC9),
     (0xCCE, 0xCD4), (0xCD7, 0xCDC), (0xCDF, 0xCDF), (0xCE4, 0xCE5), (0xCF0, 0xCF0),
     (0xCF3, 0xCFF), (0xD0D, 0xD0D), (0xD11, 0xD11), (0xD45, 0xD45), (0xD49, 0xD49),
     (0xD50, 0xD53), (0xD64, 0xD65), (0xD80, 0xD80), (0xD84, 0xD84), (0xD97, 0xD99),
     (0xDB2, 0xDB2), (0xDBC, 0xDBC), (0xDBE, 0xDBF), (0xDC7, 0xDC9), (0xDCB, 0xDCE),
     (0xDD5, 0xDD5), (0xDD7, 0xDD7), (0xDE0, 0xDE5), (0xDF0, 0xDF1), (0xDF5, 0xE00),
     (0xE3B, 0xE3E), (0xE5C, 0xE80), (0xE83, 0xE83), (0xE85, 0xE85), (0xE8B, 0xE8B),
     (0xEA4, 0xEA4), (0xEA6, 0xEA6), (0xEBE, 0xEBF), (0xEC5, 0xEC5), (0xEC7, 0xEC7),
     (0xECE, 0xECF), (0xEDA, 0xEDB), (0xEE0, 0xEFF), (0xF48, 0xF48), (0xF6D, 0xF70),
     (0xF98, 0xF98), (0xFBD, 0xFBD), (0xFCD, 0xFCD), (0xFDB, 0xFFF), (0x10C6, 0x10C6),
     (0x10C8, 0x10CC), (0x10CE, 0x10CF), (0x1249, 0x1249), (0x124E, 0x124F), (0x1257, 0x1257),
     (0x1259, 0x1259), (0x125E, 0x125F), (0x1289, 0x1289), (0x128E, 0x128F), (0x12B1, 0x12B1),
     (0x12B6, 0x12B7), (0x12BF, 0x12BF), (0x12C1, 0x12C1), (0x12C6, 0x12C7), (0x12D7, 0x12D7),
     (0x1311, 0x1311), (0x1316, 0x1317), (0x135B, 0x135C), (0x137D, 0x137F), (0x139A, 0x139F),
     (0x13F6, 0x13F7), (0x13FE, 0x13FF), (0x1680, 0x1680), (0x169D, 0x169F), (0x16F9, 0x16FF),
     (0x1716, 0x171E), (0x1737, 0x173F), (0x1754, 0x175F), (0x176D, 0x176D), (0x1771, 0x1771),
     (0x1774, 0x177F), (0x17DE, 0x17DF), (0x17EA, 0x17EF), (0x17FA, 0x17FF), (0x180E, 0x180E),
     (0x181A, 0x181F), (0x1879, 0x187F), (0x18AB, 0x18AF), (0x18F6, 0x18FF), (0x191F, 0x191F),
     (0x192C, 0x192F), (0x193C, 0x193F), (0x1941, 0x1943), (0x196E, 0x196F), (0x1975, 0x197F),
     (0x19AC, 0x19AF), (0x19CA, 0x19CF), (0x19DB, 0x19DD), (0x1A1C, 0x1A1D), (0x1A5F, 0x1A5F),
     (0x1A7D, 0x1A7E), (0x1A8A, 0x1A8F), (0x1A9A, 0x1A9F), (0x1AAE, 0x1AAF), (0x1ACF, 0x1AFF),
     (0x1B4D, 0x1B4F), (0x1B7F, 0x1B7F), (0x1BF4, 0x1BFB), (0x1C38, 0x1C3A), (0x1C4A, 0x1C4C),
     (0x1C89, 0x1C8F), (0x1CBB, 0x1CBC), (0x1CC8, 0x1CCF), (0x1CFB, 0x1CFF), (0x1F16, 0x1F17),
     (0x1F1E, 0x1F1F), (0x1F46, 0x1F47), (0x1F4E, 0x1F4F), (0x1F58, 0x1F58), (0x1F5A, 0x1F5A),
     (0x1F5C, 0x1F5C), (0x1F5E, 0x1F5E), (0x1F7E, 0x1F7F), (0x1FB5, 0x1FB5), (0x1FC5, 0x1FC5),
     (0x1FD4, 0x1FD5), (0x1FDC, 0x1FDC), (0x1FF0, 0x1FF1), (0x1FF5, 0x1FF5), (0x1FFF, 0x200F),
     (0x2028, 0x202F), (0x205F, 0x206F), (0x2072, 0x2073), (0x208F, 0x208F), (0x209D, 0x209F),
     (0x20C1, 0x20CF), (0x20F1, 0x20FF), (0x218C, 0x218F), (0x2427, 0x243F), (0x244B, 0x245F),
     (0x2B74, 0x2B75), (0x2B96, 0x2B96), (0x2CF4, 0x2CF8), (0x2D26, 0x2D26), (0x2D28, 0x2D2C),
     (0x2D2E, 0x2D2F), (0x2D68, 0x2D6E), (0x2D71, 0x2D7E), (0x2D97, 0x2D9F), (0x2DA7, 0x2DA7),
     (0x2DAF, 0x2DAF), (0x2DB7, 0x2DB7), (0x2DBF, 0x2DBF), (0x2DC7, 0x2DC7), (0x2DCF, 0x2DCF),
     (0x2DD7, 0x2DD7), (0x2DDF, 0x2DDF), (0x2E5E, 0x2E7F), (0x2E9A, 0x2E9A), (0x2EF4, 0x2EFF),
     (0x2FD6, 0x2FEF), (0x2FFC, 0x3000), (0x3040, 0x3040), (0x3097, 0x3098), (0x3100, 0x3104),
     (0x3130, 0x3130), (0x318F, 0x318F), (0x31E4, 0x31EF), (0x321F, 0x321F), (0xA48D, 0xA48F),
     (0xA4C7, 0xA4CF), (0xA62C, 0xA63F), (0xA6F8, 0xA6FF), (0xA7CB, 0xA7CF), (0xA7D2, 0xA7D2),
     (0xA7D4, 0xA7D4), (0xA7DA, 0xA7F1), (0xA82D, 0xA82F), (0xA83A, 0xA83F), (0xA878, 0xA87F),
     (0xA8C6, 0xA8CD), (0xA8DA, 0xA8DF), (0xA954, 0xA95E), (0xA97D, 0xA97F), (0xA9CE, 0xA9CE),
     (0xA9DA, 0xA9DD), (0xA9FF, 0xA9FF), (0xAA37, 0xAA3F), (0xAA4E, 0xAA4F), (0xAA5A, 0xAA5B),
     (0xAAC3, 0xAADA), (0xAAF7, 0xAB00), (0xAB07, 0xAB08), (0xAB0F, 0xAB10), (0xAB17, 0xAB1F),
     (0xAB27, 0xAB27), (0xAB2F, 0xAB2F), (0xAB6C, 0xAB6F), (0xABEE, 0xABEF), (0xABFA, 0xABFF),
     (0xD7A4, 0xD7AF), (0xD7C7, 0xD7CA), (0xD7FC, 0xF8FF), (0xFA6E, 0xFA6F), (0xFADA, 0xFAFF),
     (0xFB07, 0xFB12), (0xFB18, 0xFB1C), (0xFB37, 0xFB37), (0xFB3D, 0xFB3D), (0xFB3F, 0xFB3F),
     (0xFB42, 0xFB42), (0xFB45, 0xFB45), (0xFBC3, 0xFBD2), (0xFD90, 0xFD91), (0xFDC8, 0xFDCE),
     (0xFDD0, 0xFDEF), (0xFE1A, 0xFE1F), (0xFE53, 0xFE53), (0xFE67, 0xFE67), (0xFE6C, 0xFE6F),
     (0xFE75, 0xFE75), (0xFEFD, 0xFF00), (0xFFBF, 0xFFC1), (0xFFC8, 0xFFC9), (0xFFD0, 0xFFD1),
     (0xFFD8, 0xFFD9), (0xFFDD, 0xFFDF), (0xFFE7, 0xFFE7), (0xFFEF, 0xFFFB), (0xFFFE, 0xFFFF),
     (0x1000C, 0x1000C), (0x10027, 0x10027), (0x1003B, 0x1003B), (0x1003E, 0x1003E),
     (0x1004E, 0x1004F), (0x1005E, 0x1007F), (0x100FB, 0x100FF), (0x10103, 0x10106),
     (0x10134, 0x10136), (0x1018F, 0x1018F), (0x1019D, 0x1019F), (0x101A1, 0x101CF),
     (0x101FE, 0x1027F), (0x1029D, 0x1029F), (0x102D1, 0x102DF), (0x102FC, 0x102FF),
     (0x10324, 0x1032C), (0x1034B, 0x1034F), (0x1037B, 0x1037F), (0x1039E, 0x1039E),
     (0x103C4, 0x103C7), (0x103D6, 0x103FF), (0x1049E, 0x1049F), (0x104AA, 0x104AF),
     (0x104D4, 0x104D7), (0x104FC, 0x104FF), (0x10528, 0x1052F), (0x10564, 0x1056E),
     (0x1057B, 0x1057B), (0x1058B, 0x1058B), (0x10593, 0x10593), (0x10596, 0x10596),
     (0x105A2, 0x105A2), (0x105B2, 0x105B2), (0x105BA, 0x105BA), (0x105BD, 0x105FF),
     (0x10737, 0x1073F), (0x10756, 0x1075F), (0x10768, 0x1077F), (0x10786, 0x10786),
     (0x107B1, 0x107B1), (0x107BB, 0x107FF), (0x10806, 0x10807), (0x10809, 0x10809),
     (0x10836, 0x10836), (0x10839, 0x1083B), (0x1083D, 0x1083E), (0x10856, 0x10856),
     (0x1089F, 0x108A6), (0x108B0, 0x108DF), (0x108F3, 0x108F3), (0x108F6, 0x108FA),
     (0x1091C, 0x1091E), (0x1093A, 0x1093E), (0x10940, 0x1097F), (0x109B8, 0x109BB),
     (0x109D0, 0x109D1), (0x10A04, 0x10A04), (0x10A07, 0x10A0B), (0x10A14, 0x10A14),
     (0x10A18, 0x10A18), (0x10A36, 0x10A37), (0x10A3B, 0x10A3E), (0x10A49, 0x10A4F),
     (0x10A59, 0x10A5F), (0x10AA0, 0x10ABF), (0x10AE7, 0x10AEA), (0x10AF7, 0x10AFF),
     (0x10B36, 0x10B38), (0x10B56, 0x10B57), (0x10B73, 0x10B77), (0x10B92, 0x10B98),
     (0x10B9D, 0x10BA8), (0x10BB0, 0x10BFF), (0x10C49, 0x10C7F), (0x10CB3, 0x10CBF),
     (0x10CF3, 0x10CF9), (0x10D28, 0x10D2F), (0x10D3A, 0x10E5F), (0x10E7F, 0x10E7F),
     (0x10EAA, 0x10EAA), (0x10EAE, 0x10EAF), (0x10EB2, 0x10EFF), (0x10F28, 0x10F2F),
     (0x10F5A, 0x10F6F), (0x10F8A, 0x10FAF), (0x10FCC, 0x10FDF), (0x10FF7, 0x10FFF),
     (0x1104E, 0x11051), (0x11076, 0x1107E), (0x110BD, 0x110BD), (0x110C3, 0x110CF),
     (0x110E9, 0x110EF), (0x110FA, 0x110FF), (0x11135, 0x11135), (0x11148, 0x1114F),
     (0x11177, 0x1117F), (0x111E0, 0x111E0), (0x111F5, 0x111FF), (0x11212, 0x11212),
     (0x1123F, 0x1127F), (0x11287, 0x11287), (0x11289, 0x11289), (0x1128E, 0x1128E),
     (0x1129E, 0x1129E), (0x112AA, 0x112AF), (0x112EB, 0x112EF), (0x112FA, 0x112FF),
     (0x11304, 0x11304), (0x1130D, 0x1130E), (0x11311, 0x11312), (0x11329, 0x11329),
     (0x11331, 0x11331), (0x11334, 0x11334), (0x1133A, 0x1133A), (0x11345, 0x11346),
     (0x11349, 0x1134A), (0x1134E, 0x1134F), (0x11351, 0x11356), (0x11358, 0x1135C),
     (0x11364, 0x11365), (0x1136D, 0x1136F), (0x11375, 0x113FF), (0x1145C, 0x1145C),
     (0x11462, 0x1147F), (0x114C8, 0x114CF), (0x114DA, 0x1157F), (0x115B6, 0x115B7),
     (0x115DE, 0x115FF), (0x11645, 0x1164F), (0x1165A, 0x1165F), (0x1166D, 0x1167F),
     (0x116BA, 0x116BF), (0x116CA, 0x116FF), (0x1171B, 0x1171C), (0x1172C, 0x1172F),
     (0x11747, 0x117FF), (0x1183C, 0x1189F), (0x118F3, 0x118FE), (0x11907, 0x11908),
     (0x1190A, 0x1190B), (0x11914, 0x11914), (0x11917, 0x11917), (0x11936, 0x11936),
     (0x11939, 0x1193A), (0x11947, 0x1194F), (0x1195A, 0x1199F), (0x119A8, 0x119A9),
     (0x119D8, 0x119D9), (0x119E5, 0x119FF), (0x11A48, 0x11A4F), (0x11AA3, 0x11AAF),
     (0x11AF9, 0x11BFF), (0x11C09, 0x11C09), (0x11C37, 0x11C37), (0x11C46, 0x11C4F),
     (0x11C6D, 0x11C6F), (0x11C90, 0x11C91), (0x11CA8, 0x11CA8), (0x11CB7, 0x11CFF),
     (0x11D07, 0x11D07), (0x11D0A, 0x11D0A), (0x11D37, 0x11D39), (0x11D3B, 0x11D3B),
     (0x11D3E, 0x11D3E), (0x11D48, 0x11D4F), (0x11D5A, 0x11D5F), (0x11D66, 0x11D66),
     (0x11D69, 0x11D69), (0x11D8F, 0x11D8F), (0x11D92, 0x11D92), (0x11D99, 0x11D9F),
     (0x11DAA, 0x11EDF), (0x11EF9, 0x11FAF), (0x11FB1, 0x11FBF), (0x11FF2, 0x11FFE),
     (0x1239A, 0x123FF), (0x1246F, 0x1246F), (0x12475, 0x1247F), (0x12544, 0x12F8F),
     (0x12FF3, 0x12FFF), (0x1342F, 0x143FF), (0x14647, 0x167FF), (0x16A39, 0x16A3F),
     (0x16A5F, 0x16A5F), (0x16A6A, 0x16A6D), (0x16ABF, 0x16ABF), (0x16ACA, 0x16ACF),
     (0x16AEE, 0x16AEF), (0x16AF6, 0x16AFF), (0x16B46, 0x16B4F), (0x16B5A, 0x16B5A),
     (0x16B62, 0x16B62), (0x16B78, 0x16B7C), (0x16B90, 0x16E3F), (0x16E9B, 0x16EFF),
     (0x16F4B, 0x16F4E), (0x16F88, 0x16F8E), (0x16FA0, 0x16FDF), (0x16FE5, 0x16FEF),
     (0x16FF2, 0x16FFF), (0x187F8, 0x187FF), (0x18CD6, 0x18CFF), (0x18D09, 0x1AFEF),
     (0x1AFF4, 0x1AFF4), (0x1AFFC, 0x1AFFC), (0x1AFFF, 0x1AFFF), (0x1B123, 0x1B14F),
     (0x1B153, 0x1B163), (0x1B168, 0x1B16F), (0x1B2FC, 0x1BBFF), (0x1BC6B, 0x1BC6F),
     (0x1BC7D, 0x1BC7F), (0x1BC89, 0x1BC8F), (0x1BC9A, 0x1BC9B), (0x1BCA0, 0x1CEFF),
     (0x1CF2E, 0x1CF2F), (0x1CF47, 0x1CF4F), (0x1CFC4, 0x1CFFF), (0x1D0F6, 0x1D0FF),
     (0x1D127, 0x1D128), (0x1D173, 0x1D17A), (0x1D1EB, 0x1D1FF), (0x1D246, 0x1D2DF),
     (0x1D2F4, 0x1D2FF), (0x1D357, 0x1D35F), (0x1D379, 0x1D3FF), (0x1D455, 0x1D455),
     (0x1D49D, 0x1D49D), (0x1D4A0, 0x1D4A1), (0x1D4A3, 0x1D4A4), (0x1D4A7, 0x1D4A8),
     (0x1D4AD, 0x1D4AD), (0x1D4BA, 0x1D4BA), (0x1D4BC, 0x1D4BC), (0x1D4C4, 0x1D4C4),
     (0x1D506, 0x1D506), (0x1D50B, 0x1D50C), (0x1D515, 0x1D515), (0x1D51D, 0x1D51D),
     (0x1D53A, 0x1D53A), (0x1D53F, 0x1D53F), (0x1D545, 0x1D545), (0x1D547, 0x1D549),
     (0x1D551, 0x1D551), (0x1D6A6, 0x1D6A7), (0x1D7CC, 0x1D7CD), (0x1DA8C, 0x1DA9A),
     (0x1DAA0, 0x1DAA0), (0x1DAB0, 0x1DEFF), (0x1DF1F, 0x1DFFF), (0x1E007, 0x1E007),
     (0x1E019, 0x1E01A), (0x1E022, 0x1E022), (0x1E025, 0x1E025), (0x1E02B, 0x1E0FF),
     (0x1E12D, 0x1E12F), (0x1E13E, 0x1E13F), (0x1E14A, 0x1E14D), (0x1E150, 0x1E28F),
     (0x1E2AF, 0x1E2BF), (0x1E2FA, 0x1E2FE), (0x1E300, 0x1E7DF), (0x1E7E7, 0x1E7E7),
     (0x1E7EC, 0x1E7EC), (0x1E7EF, 0x1E7EF), (0x1E7FF, 0x1E7FF), (0x1E8C5, 0x1E8C6),
     (0x1E8D7, 0x1E8FF), (0x1E94C, 0x1E94F), (0x1E95A, 0x1E95D), (0x1E960, 0x1EC70),
     (0x1ECB5, 0x1ED00), (0x1ED3E, 0x1EDFF), (0x1EE04, 0x1EE04), (0x1EE20, 0x1EE20),
     (0x1EE23, 0x1EE23), (0x1EE25, 0x1EE26), (0x1EE28, 0x1EE28), (0x1EE33, 0x1EE33),
     (0x1EE38, 0x1EE38), (0x1EE3A, 0x1EE3A), (0x1EE3C, 0x1EE41), (0x1EE43, 0x1EE46),
     (0x1EE48, 0x1EE48), (0x1EE4A, 0x1EE4A), (0x1EE4C, 0x1EE4C), (0x1EE50, 0x1EE50),
     (0x1EE53, 0x1EE53), (0x1EE55, 0x1EE56), (0x1EE58, 0x1EE58), (0x1EE5A, 0x1EE5A),
     (0x1EE5C, 0x1EE5C), (0x1EE5E, 0x1EE5E), (0x1EE60, 0x1EE60), (0x1EE63, 0x1EE63),
     (0x1EE65, 0x1EE66), (0x1EE6B, 0x1EE6B), (0x1EE73, 0x1EE73), (0x1EE78, 0x1EE78),
     (0x1EE7D, 0x1EE7D), (0x1EE7F, 0x1EE7F), (0x1EE8A, 0x1EE8A), (0x1EE9C, 0x1EEA0),
     (0x1EEA4, 0x1EEA4), (0x1EEAA, 0x1EEAA), (0x1EEBC, 0x1EEEF), (0x1EEF2, 0x1EFFF),
     (0x1F02C, 0x1F02F), (0x1F094, 0x1F09F), (0x1F0AF, 0x1F0B0), (0x1F0C0, 0x1F0C0),
     (0x1F0D0, 0x1F0D0), (0x1F0F6, 0x1F0FF), (0x1F1AE, 0x1F1E5), (0x1F203, 0x1F20F),
     (0x1F23C, 0x1F23F), (0x1F249, 0x1F24F), (0x1F252, 0x1F25F), (0x1F266, 0x1F2FF),
     (0x1F6D8, 0x1F6DC), (0x1F6ED, 0x1F6EF), (0x1F6FD, 0x1F6FF), (0x1F774, 0x1F77F),
     (0x1F7D9, 0x1F7DF), (0x1F7EC, 0x1F7EF), (0x1F7F1, 0x1F7FF), (0x1F80C, 0x1F80F),
     (0x1F848, 0x1F84F), (0x1F85A, 0x1F85F), (0x1F888, 0x1F88F), (0x1F8AE, 0x1F8AF),
     (0x1F8B2, 0x1F8FF), (0x1FA54, 0x1FA5F), (0x1FA6E, 0x1FA6F), (0x1FA75, 0x1FA77),
     (0x1FA7D, 0x1FA7F), (0x1FA87, 0x1FA8F), (0x1FAAD, 0x1FAAF), (0x1FABB, 0x1FABF),
     (0x1FAC6, 0x1FACF), (0x1FADA, 0x1FADF), (0x1FAE8, 0x1FAEF), (0x1FAF7, 0x1FAFF),
     (0x1FB93, 0x1FB93), (0x1FBCB, 0x1FBEF), (0x1FBFA, 0x1FFFF), (0x2A6E0, 0x2A6FF),
     (0x2B739, 0x2B73F), (0x2B81E, 0x2B81F), (0x2CEA2, 0x2CEAF), (0x2EBE1, 0x2F7FF),
     (0x2FA1E, 0x2FFFF), (0x3134B, 0xE00FF), (0xE01F0, 0x10FFFF)]"

definition hex_digit :: "int \<Rightarrow> codepoint" where
  "hex_digit n = (if n < 10 then 48 + n else 87 + n)"

definition repr_cp :: "codepoint \<Rightarrow> codepoint \<Rightarrow> codepoint list" where
  \<comment> \<open>one code point of \<open>repr(s)\<close>, inside the quote \<open>q\<close>\<close>
  "repr_cp q c =
     (if c = q \<or> c = 92 then [92, c]
      else if c = 9 then [92, 116]
      else if c = 10 then [92, 110]
      else if c = 13 then [92, 114]
      else if c < 32 \<or> c = 127 then [92, 120, hex_digit (c div 16), hex_digit (c mod 16)]
      else if c < 127 then [c]
      else if \<not> in_runs c unprintable_runs then [c]
      else if c < 0x100 then [92, 120, hex_digit (c div 16), hex_digit (c mod 16)]
      else if c < 0x10000 then
        [92, 117, hex_digit (c div 4096), hex_digit (c div 256 mod 16),
         hex_digit (c div 16 mod 16), hex_digit (c mod 16)]
      else
        [92, 85, hex_digit 0, hex_digit 0, hex_digit (c div 1048576 mod 16),
         hex_digit (c div 65536 mod 16), hex_digit (c div 4096 mod 16),
         hex_digit (c div 256 mod 16), hex_digit (c div 16 mod 16), hex_digit (c mod 16)])"

definition repr :: "codepoint list \<Rightarrow> codepoint list" where
  "repr s =
     (let q = (if 39 \<in> set s \<and> 34 \<notin> set s then 34 else 39)
      in [q] @ concat (map (repr_cp q) s) @ [q])"

definition decimal_zeros :: "codepoint list" where
  \<comment> \<open>the digit zero of every decimal digit set; the nine digits that follow it are next\<close>
  "decimal_zeros =
    [0x660, 0x6F0, 0x7C0, 0x966, 0x9E6, 0xA66, 0xAE6, 0xB66, 0xBE6, 0xC66, 0xCE6, 0xD66, 0xDE6,
     0xE50, 0xED0, 0xF20, 0x1040, 0x1090, 0x17E0, 0x1810, 0x1946, 0x19D0, 0x1A80, 0x1A90,
     0x1B50, 0x1BB0, 0x1C40, 0x1C50, 0xA620, 0xA8D0, 0xA900, 0xA9D0, 0xA9F0, 0xAA50, 0xABF0,
     0xFF10, 0x104A0, 0x10D30, 0x11066, 0x110F0, 0x11136, 0x111D0, 0x112F0, 0x11450, 0x114D0,
     0x11650, 0x116C0, 0x11730, 0x118E0, 0x11950, 0x11C50, 0x11D50, 0x11DA0, 0x16A60, 0x16AC0,
     0x16B50, 0x1D7CE, 0x1D7D8, 0x1D7E2, 0x1D7EC, 0x1D7F6, 0x1E140, 0x1E2F0, 0x1E950, 0x1FBF0]"

definition decimal :: "codepoint \<Rightarrow> int option" where
  \<comment> \<open>the value of a decimal digit outside ASCII\<close>
  "decimal c =
     (case find (\<lambda>z. z \<le> c \<and> c \<le> z + 9) decimal_zeros of
        Some z \<Rightarrow> Some (c - z)
      | None \<Rightarrow> None)"

definition int_ascii :: "codepoint \<Rightarrow> codepoint" where
  \<comment> \<open>what \<open>int\<close> first turns a code point into: a blank outside ASCII into a space, a
      decimal digit outside ASCII into the ASCII digit, anything else outside ASCII into
      a question mark\<close>
  "int_ascii c =
     (if c < 127 then c
      else if isspace c then 32
      else case decimal c of Some d \<Rightarrow> 48 + d | None \<Rightarrow> 63)"

definition int_space :: "codepoint \<Rightarrow> bool" where
  \<comment> \<open>the ASCII blanks \<open>int\<close> skips around the literal\<close>
  "int_space c = (c \<in> {9, 10, 11, 12, 13, 32})"

definition is_digit :: "codepoint \<Rightarrow> bool" where
  "is_digit c = (48 \<le> c \<and> c \<le> 57)"

definition digit_value :: "codepoint \<Rightarrow> int" where
  "digit_value c = c - 48"

fun scan_digits :: "int \<Rightarrow> bool \<Rightarrow> codepoint list \<Rightarrow> int option" where
  \<comment> \<open>digits with single underscores between them; the flag says the last code point
      read was an underscore\<close>
  "scan_digits acc us [] = (if us then None else Some acc)"
| "scan_digits acc us (c # cs) =
     (if c = 95 then (if us then None else scan_digits acc True cs)
      else if is_digit c then scan_digits (10 * acc + digit_value c) False cs
      else None)"

definition invalid_literal :: "string \<Rightarrow> py_error" where
  "invalid_literal s =
     ValueError (''invalid literal for int() with base 10: '' @
       utf8_of (take 200 (repr (code_points s))))"

definition py_int :: "string \<Rightarrow> py_error + int" where
  \<comment> \<open>\<open>int(s)\<close> for a \<open>str\<close>: blanks, an optional sign, decimal digits with single
      underscores between them, blanks\<close>
  "py_int s =
     (let t = dropWhile int_space (map int_ascii (code_points s));
          sign = (case t of c # _ \<Rightarrow> if c = 45 then - 1 else 1 | [] \<Rightarrow> (1 :: int));
          u = (case t of c # r \<Rightarrow> if c = 43 \<or> c = 45 then r else t | [] \<Rightarrow> []);
          body = rev (dropWhile int_space (rev u))
      in case body of
           [] \<Rightarrow> Inl (invalid_literal s)
         | c # _ \<Rightarrow>
             if c = 95 then Inl (invalid_literal s)
             else (case scan_digits 0 False body of
                     None \<Rightarrow> Inl (invalid_literal s)
                   | Some n \<Rightarrow> Inr (sign * n)))"

section \<open>Motor driver\<close>

text \<open>
  The PCA9685 board is outside the repository: the model keeps the list of
  \<open>set_motor_pwm(channel, duty)\<close> calls it receives, oldest first, and takes each call to
  succeed. \<open>speed_calls\<close> is instrumentation: the arguments of every invocation of
  \<open>set_motor_speeds\<close>, oldest first.
\<close>

record MotorController =
  initialized :: bool
  pwm :: "(nat \<times> int) list"
  speed_calls :: "(int \<times> int \<times> int \<times> int) list"

definition motor_init :: "bool \<Rightarrow> MotorController" where
  \<comment> \<open>\<open>__init__\<close>; the argument says whether the board could be opened\<close>
  "motor_init ok = \<lparr>initialized = ok, pwm = [], speed_calls = []\<rparr>"

definition duty_range :: "int \<Rightarrow> int" where
  "duty_range duty = (if duty > 4095 then 4095 else if duty < - 4095 then - 4095 else duty)"

definition set_motor_pwm :: "nat \<Rightarrow> int \<Rightarrow> MotorController \<Rightarrow> MotorController" where
  "set_motor_pwm channel duty m = m\<lparr>pwm := pwm m @ [(channel, duty)]\<rparr>"

definition pwm2 :: "nat \<Rightarrow> int \<Rightarrow> nat \<Rightarrow> int \<Rightarrow> MotorController \<Rightarrow> MotorController" where
  \<comment> \<open>two consecutive \<open>set_motor_pwm\<close> calls, the first one first\<close>
  "pwm2 c1 d1 c2 d2 m = set_motor_pwm c2 d2 (set_motor_pwm c1 d1 m)"

definition set_motor :: "nat \<Rightarrow> int \<Rightarrow> MotorController \<Rightarrow> MotorController" where
  "set_motor motor_index duty0 m =
     (if \<not> initialized m then m
      else let duty = duty_range duty0 in
        if motor_index = 0 then
          (if duty > 0 then pwm2 0 0 1 duty m
           else if duty < 0 then pwm2 1 0 0 \<bar>duty\<bar> m
           else pwm2 0 4095 1 4095 m)
        else if motor_index = 1 then
          (if duty > 0 then pwm2 3 0 2 duty m
           else if duty < 0 then pwm2 2 0 3 \<bar>duty\<bar> m
           else pwm2 2 4095 3 4095 m)
        else if motor_index = 2 then
          (if duty > 0 then pwm2 6 0 7 duty m
           else if duty < 0 then pwm2 7 0 6 \<bar>duty\<bar> m
           else pwm2 6 4095 7 4095 m)
        else if motor_index = 3 then
          (if duty > 0 then pwm2 4 0 5 duty m
           else if duty < 0 then pwm2 5 0 4 \<bar>duty\<bar> m
           else pwm2 4 4095 5 4095 m)
        else m)"

definition set_motor_speeds ::
  "int \<Rightarrow> int \<Rightarrow> int \<Rightarrow> int \<Rightarrow> MotorController \<Rightarrow> MotorController" where
  "set_motor_speeds left_upper left_lower right_upper right_lower m0 =
     (let m = m0\<lparr>speed_calls := speed_calls m0 @ [(left_upper, left_lower, right_upper, right_lower)]\<rparr>
      in if \<not> initialized m then m
         else set_motor 3 (duty_range right_lower)
               (set_motor 2 (duty_range right_upper)
                 (set_motor 1 (duty_range left_lower)
                   (set_motor 0 (duty_range left_upper) m))))"

definition motor_stop :: "MotorController \<Rightarrow> MotorController" where
  \<comment> \<open>\<open>MotorController.stop\<close>\<close>
  "motor_stop m = set_motor_speeds 0 0 0 0 m"

section \<open>Sockets and the TCP server\<close>

text \<open>
  A socket object is named by a number and lives in a store, since the registries and the
  threads share it. Of a socket the model keeps whether it was closed, the complete
  \<open>sendall\<close> payloads it took (oldest first) and, for the peer, how many more \<open>sendall\<close>
  calls will succeed (\<open>None\<close>: all of them).
\<close>

type_synonym socket = nat
type_synonym address = "string \<times> nat"
type_synonym byte = "8 word"

record sock =
  sock_closed :: bool
  fail_after :: "nat option"
  sent :: "byte list list"

definition sendall :: "byte list \<Rightarrow> sock \<Rightarrow> py_error + sock" where
  "sendall data k =
     (if sock_closed k then Inl (OSError ''Bad file descriptor'')
      else case fail_after k of
             None \<Rightarrow> Inr (k\<lparr>sent := sent k @ [data]\<rparr>)
           | Some 0 \<Rightarrow> Inl (OSError ''Broken pipe'')
           | Some (Suc n) \<Rightarrow> Inr (k\<lparr>fail_after := Some n, sent := sent k @ [data]\<rparr>))"

definition close_sock :: "sock \<Rightarrow> sock" where
  "close_sock k = k\<lparr>sock_closed := True\<rparr>"

definition encode :: "string \<Rightarrow> byte list" where
  \<comment> \<open>\<open>s.encode('utf-8')\<close>: the text is kept as its UTF-8 bytes\<close>
  "encode s = map (\<lambda>c. of_nat (of_char c)) s"

text \<open>
  The two registries are dictionaries from socket to peer address; a dictionary is an
  association list in insertion order. \<open>client_threads\<close> and \<open>responses\<close> are
  instrumentation: the per-client read loops started, and the arguments of every
  \<open>send_command_response\<close> call, oldest first. \<open>tcp_running\<close> is the server's own
  \<open>running\<close> flag.
\<close>

record TCPServer =
  command_clients :: "(socket \<times> address) list"
  video_clients :: "(socket \<times> address) list"
  message_queue :: "(address \<times> string) list"
  tcp_running :: bool
  max_clients :: nat
  sockets :: "socket \<Rightarrow> sock"
  client_threads :: "(socket \<times> address) list"
  responses :: "(address \<times> string) list"

definition tcp_init :: "(socket \<Rightarrow> sock) \<Rightarrow> TCPServer" where
  \<comment> \<open>\<open>TCPServer.__init__\<close>, over a given store of sockets\<close>
  "tcp_init st = \<lparr>command_clients = [], video_clients = [], message_queue = [],
     tcp_running = False, max_clients = 1, sockets = st, client_threads = [], responses = []\<rparr>"

definition close_socket :: "socket \<Rightarrow> TCPServer \<Rightarrow> TCPServer" where
  \<comment> \<open>\<open>client_socket.close()\<close>\<close>
  "close_socket c srv = srv\<lparr>sockets := (sockets srv)(c := close_sock (sockets srv c))\<rparr>"

definition accept_command_client :: "socket \<Rightarrow> address \<Rightarrow> TCPServer \<Rightarrow> TCPServer" where
  \<comment> \<open>one turn of the loop of \<open>handle_command_clients\<close> in which \<open>accept\<close> returned\<close>
  "accept_command_client client_socket client_address srv =
     (if length (command_clients srv) \<ge> max_clients srv then close_socket client_socket srv
      else srv\<lparr>command_clients := AList.update client_socket client_address (command_clients srv),
               client_threads := client_threads srv @ [(client_socket, client_address)]\<rparr>)"

definition accept_video_client :: "socket \<Rightarrow> address \<Rightarrow> TCPServer \<Rightarrow> TCPServer" where
  \<comment> \<open>one turn of the loop of \<open>handle_video_clients\<close> in which \<open>accept\<close> returned\<close>
  "accept_video_client client_socket client_address srv =
     (if length (video_clients srv) \<ge> max_clients srv then close_socket client_socket srv
      else srv\<lparr>video_clients := AList.update client_socket client_address (video_clients srv)\<rparr>)"

definition client_received :: "address \<Rightarrow> string \<Rightarrow> TCPServer \<Rightarrow> TCPServer" where
  \<comment> \<open>one turn of the loop of \<open>handle_client_commands\<close> that read a non-empty chunk of
      well-formed UTF-8; any other turn ends the loop\<close>
  "client_received client_address command srv =
     srv\<lparr>message_queue := message_queue srv @ [(client_address, command)]\<rparr>"

definition client_finished :: "socket \<Rightarrow> TCPServer \<Rightarrow> TCPServer" where
  \<comment> \<open>the \<open>finally\<close> block of \<open>handle_client_commands\<close>\<close>
  "client_finished client_socket srv =
     close_socket client_socket
       (if client_socket \<in> fst ` set (command_clients srv)
        then srv\<lparr>command_clients := AList.delete client_socket (command_clients srv)\<rparr>
        else srv)"

definition pack_L :: "nat \<Rightarrow> py_error + byte list" where
  \<comment> \<open>\<open>struct.pack('<L', n)\<close>\<close>
  "pack_L n =
     (if n < 2 ^ 32
      then Inr [of_nat n, of_nat (n div 2 ^ 8), of_nat (n div 2 ^ 16), of_nat (n div 2 ^ 24)]
      else Inl (StructError ''argument out of range''))"

fun send_frames ::
  "byte list \<Rightarrow> byte list \<Rightarrow> (socket \<times> address) list \<Rightarrow> (socket \<Rightarrow> sock) \<Rightarrow> socket list \<times> (socket \<Rightarrow> sock)" where
  \<comment> \<open>the first loop of \<open>send_video_data\<close>: the sockets whose send failed, and the store\<close>
  "send_frames size_data frame_data [] st = ([], st)"
| "send_frames size_data frame_data ((c, a) # cs) st =
     (case sendall size_data (st c) of
        Inl e \<Rightarrow> (case send_frames size_data frame_data cs st of (rm, st') \<Rightarrow> (c # rm, st'))
      | Inr k1 \<Rightarrow>
          (case sendall frame_data k1 of
             Inl e \<Rightarrow> (case send_frames size_data frame_data cs (st(c := k1)) of (rm, st') \<Rightarrow> (c # rm, st'))
           | Inr k2 \<Rightarrow> send_frames size_data frame_data cs (st(c := k2))))"

fun remove_failed :: "socket list \<Rightarrow> TCPServer \<Rightarrow> TCPServer" where
  \<comment> \<open>the second loop of \<open>send_video_data\<close>\<close>
  "remove_failed [] srv = srv"
| "remove_failed (c # cs) srv =
     remove_failed cs (close_socket c (srv\<lparr>video_clients := AList.delete c (video_clients srv)\<rparr>))"

definition send_video_data :: "byte list \<Rightarrow> TCPServer \<Rightarrow> py_error + (bool \<times> TCPServer)" where
  "send_video_data frame_data srv =
     (if video_clients srv = [] then Inr (False, srv)
      else case pack_L (length frame_data) of
             Inl e \<Rightarrow> Inl e
           | Inr size_data \<Rightarrow>
               (case send_frames size_data frame_data (video_clients srv) (sockets srv) of
                  (clients_to_remove, st) \<Rightarrow>
                    Inr (True, remove_failed clients_to_remove (srv\<lparr>sockets := st\<rparr>))))"

fun find_client :: "address \<Rightarrow> (socket \<times> address) list \<Rightarrow> socket option" where
  \<comment> \<open>the first registered socket whose address is the given one\<close>
  "find_client client_address [] = None"
| "find_client client_address ((c, addr) # cs) =
     (if addr = client_address then Some c else find_client client_address cs)"

definition send_command_response :: "address \<Rightarrow> string \<Rightarrow> TCPServer \<Rightarrow> bool \<times> TCPServer" where
  "send_command_response client_address response srv0 =
     (let srv = srv0\<lparr>responses := responses srv0 @ [(client_address, response)]\<rparr> in
      case find_client client_address (command_clients srv) of
        None \<Rightarrow> (False, srv)
      | Some c \<Rightarrow>
          (case sendall (encode response) (sockets srv c) of
             Inl e \<Rightarrow> (False, srv)
           | Inr k \<Rightarrow> (True, srv\<lparr>sockets := (sockets srv)(c := k)\<rparr>)))"

definition has_video_clients :: "TCPServer \<Rightarrow> bool" where
  "has_video_clients srv = (length (video_clients srv) > 0)"

definition has_command_clients :: "TCPServer \<Rightarrow> bool" where
  "has_command_clients srv = (length (command_clients srv) > 0)"

definition stop_server :: "TCPServer \<Rightarrow> TCPServer" where
  \<comment> \<open>the listening sockets are not part of the model\<close>
  "stop_server srv =
     (let s1 = fold close_socket (map fst (command_clients srv)) (srv\<lparr>tcp_running := False\<rparr>);
          s2 = s1\<lparr>command_clients := []\<rparr>;
          s3 = fold close_socket (map fst (video_clients s2)) s2
      in s3\<lparr>video_clients := []\<rparr>)"

section \<open>Camera\<close>

text \<open>
  The camera library is outside the repository; of it the model keeps whether a camera
  object exists and which \<open>StreamingOutput\<close> the running encoder writes to (\<open>None\<close> when
  no encoder runs), and takes its calls to succeed. \<open>start_streaming\<close> creates a new
  \<open>StreamingOutput\<close> each time, so these objects live in a store (object \<open>i\<close> is
  \<open>outputs c ! i\<close>). Of the condition variable of an object the model keeps the threads
  blocked in \<open>wait()\<close>, which has no timeout.
\<close>

type_synonym thread = nat

record StreamingOutput =
  frame :: "byte list option"
  waiting :: "thread list"

record Camera =
  camera_open :: bool
  outputs :: "StreamingOutput list"
  streaming_output :: "nat option"
  encoding_to :: "nat option"
  is_streaming :: bool

definition camera_init :: Camera where
  "camera_init = \<lparr>camera_open = False, outputs = [], streaming_output = None,
     encoding_to = None, is_streaming = False\<rparr>"

definition initialize :: "Camera \<Rightarrow> Camera" where
  "initialize c = c\<lparr>camera_open := True\<rparr>"

definition output_write :: "byte list \<Rightarrow> StreamingOutput \<Rightarrow> StreamingOutput" where
  \<comment> \<open>\<open>StreamingOutput.write\<close>: store the frame, \<open>notify_all\<close>\<close>
  "output_write buf out = out\<lparr>frame := Some buf, waiting := []\<rparr>"

definition start_streaming :: "Camera \<Rightarrow> Camera" where
  "start_streaming c =
     (if is_streaming c then c
      else let c1 = (if \<not> camera_open c then initialize c else c);
               i = length (outputs c1)
           in c1\<lparr>outputs := outputs c1 @ [\<lparr>frame = None, waiting = []\<rparr>],
                 streaming_output := Some i, encoding_to := Some i, is_streaming := True\<rparr>)"

datatype frame_result = Returned "byte list option" | Blocked | Raised py_error

definition get_frame :: "thread \<Rightarrow> Camera \<Rightarrow> frame_result \<times> Camera" where
  \<comment> \<open>the call of \<open>get_frame\<close> by thread \<open>t\<close>, up to its return or to the \<open>wait()\<close>\<close>
  "get_frame t c =
     (if \<not> is_streaming c then (Returned None, c)
      else case streaming_output c of
             None \<Rightarrow> (Raised (AttributeError ''condition''), c)
           | Some i \<Rightarrow>
               (Blocked, c\<lparr>outputs := (outputs c)[i := (outputs c ! i)\<lparr>waiting := waiting (outputs c ! i) @ [t]\<rparr>]\<rparr>))"

definition woken :: "Camera \<Rightarrow> frame_result" where
  \<comment> \<open>what \<open>get_frame\<close> returns once its \<open>wait()\<close> has been notified\<close>
  "woken c =
     (case streaming_output c of
        None \<Rightarrow> Raised (AttributeError ''frame'')
      | Some i \<Rightarrow> Returned (frame (outputs c ! i)))"

definition encoder_frame :: "byte list \<Rightarrow> Camera \<Rightarrow> Camera" where
  \<comment> \<open>the running encoder hands a frame to its output\<close>
  "encoder_frame buf c =
     (case encoding_to c of
        None \<Rightarrow> c
      | Some i \<Rightarrow> c\<lparr>outputs := (outputs c)[i := output_write buf (outputs c ! i)]\<rparr>)"

definition stop_streaming :: "Camera \<Rightarrow> Camera" where
  "stop_streaming c =
     (if \<not> is_streaming c then c
      else if camera_open c then c\<lparr>encoding_to := None, is_streaming := False\<rparr>
      else c)"

definition close :: "Camera \<Rightarrow> Camera" where
  "close c =
     (let c1 = (if is_streaming c then stop_streaming c else c)
      in if camera_open c1 then c1\<lparr>camera_open := False, encoding_to := None\<rparr> else c1)"

section \<open>The car: command dispatch\<close>

text \<open>
  \<open>video_thread\<close> says whether the attribute holds a thread object; \<open>video_loops\<close> is
  instrumentation, the number of broadcast threads started. The join of
  \<open>stop_video_streaming\<close> waits at most two seconds and changes no state.
\<close>

record LaneFollowingCar =
  camera :: Camera
  tcp_server :: TCPServer
  motor_controller :: MotorController
  running :: bool
  streaming :: bool
  video_thread :: bool
  video_loops :: nat

definition car_init :: "bool \<Rightarrow> (socket \<Rightarrow> sock) \<Rightarrow> LaneFollowingCar" where
  \<comment> \<open>\<open>LaneFollowingCar.__init__\<close>\<close>
  "car_init motor_ok st = \<lparr>camera = camera_init, tcp_server = tcp_init st,
     motor_controller = motor_init motor_ok, running = False, streaming = False,
     video_thread = False, video_loops = 0\<rparr>"

definition start_video_streaming :: "LaneFollowingCar \<Rightarrow> LaneFollowingCar" where
  "start_video_streaming s =
     (if streaming s then s
      else s\<lparr>streaming := True, camera := start_streaming (camera s),
             video_thread := True, video_loops := Suc (video_loops s)\<rparr>)"

definition stop_video_streaming :: "LaneFollowingCar \<Rightarrow> LaneFollowingCar" where
  "stop_video_streaming s =
     (if \<not> streaming s then s
      else s\<lparr>streaming := False, video_thread := False, camera := stop_streaming (camera s)\<rparr>)"

fun ints :: "string list \<Rightarrow> py_error + int list" where
  \<comment> \<open>\<open>[int(speed) for speed in args]\<close>\<close>
  "ints [] = Inr []"
| "ints (speed # rest) =
     (case py_int speed of
        Inl e \<Rightarrow> Inl e
      | Inr v \<Rightarrow> (case ints rest of Inl e \<Rightarrow> Inl e | Inr vs \<Rightarrow> Inr (v # vs)))"

definition handle_motor_command :: "string list \<Rightarrow> LaneFollowingCar \<Rightarrow> string \<times> LaneFollowingCar" where
  "handle_motor_command args s =
     (if length args \<noteq> 4
      then (''ERROR#Invalid motor command format. Expected 4 speed values.'', s)
      else case ints args of
             Inl e \<Rightarrow> (''ERROR#'' @ str_of_error e, s)
           | Inr speeds \<Rightarrow>
               (''OK#MOTOR'',
                s\<lparr>motor_controller :=
                    set_motor_speeds (speeds ! 0) (speeds ! 1) (speeds ! 2) (speeds ! 3)
                      (motor_controller s)\<rparr>))"

definition handle_stop_command :: "string list \<Rightarrow> LaneFollowingCar \<Rightarrow> string \<times> LaneFollowingCar" where
  "handle_stop_command args s =
     (''OK#STOP'', s\<lparr>motor_controller := motor_stop (motor_controller s)\<rparr>)"

definition handle_stream_command :: "string list \<Rightarrow> LaneFollowingCar \<Rightarrow> string \<times> LaneFollowingCar" where
  "handle_stream_command args s =
     (case args of
        [] \<Rightarrow> (''ERROR#Missing streaming command (START/STOP)'', s)
      | a # _ \<Rightarrow>
          let action = upper a in
          if action = ''START'' then
            (if \<not> streaming s then (''OK#STREAM#STARTED'', start_video_streaming s)
             else (''OK#STREAM#ALREADY_RUNNING'', s))
          else if action = ''STOP'' then
            (if streaming s then (''OK#STREAM#STOPPED'', stop_video_streaming s)
             else (''OK#STREAM#NOT_RUNNING'', s))
          else (''ERROR#Unknown streaming command: '' @ action, s))"

definition json_bool :: "bool \<Rightarrow> string" where
  "json_bool b = (if b then ''true'' else ''false'')"

fun json_items :: "(string \<times> bool) list \<Rightarrow> string" where
  "json_items [] = []"
| "json_items [(k, v)] = [CHR 0x22] @ k @ [CHR 0x22] @ '': '' @ json_bool v"
| "json_items ((k, v) # kvs) = [CHR 0x22] @ k @ [CHR 0x22] @ '': '' @ json_bool v @ '', '' @ json_items kvs"

definition json_dumps :: "(string \<times> bool) list \<Rightarrow> string" where
  \<comment> \<open>\<open>json.dumps\<close> of a dictionary from plain ASCII keys to booleans\<close>
  "json_dumps d = ''{'' @ json_items d @ ''}''"

definition handle_status_command :: "string list \<Rightarrow> LaneFollowingCar \<Rightarrow> string \<times> LaneFollowingCar" where
  "handle_status_command args s =
     (let status = [(''running'', running s),
                    (''streaming'', streaming s),
                    (''video_clients'', has_video_clients (tcp_server s)),
                    (''command_clients'', has_command_clients (tcp_server s))]
      in (''STATUS#'' @ json_dumps status, s))"

definition commands ::
  "(string \<times> (string list \<Rightarrow> LaneFollowingCar \<Rightarrow> string \<times> LaneFollowingCar)) list" where
  "commands = [(''MOTOR'', handle_motor_command),
               (''STOP'', handle_stop_command),
               (''STREAM'', handle_stream_command),
               (''STATUS'', handle_status_command)]"

text \<open>
  No handler of the model raises (the one exception of the model, the \<open>ValueError\<close> of
  \<open>int\<close>, is caught inside \<open>handle_motor_command\<close>), so the outer \<open>except\<close> of
  \<open>parse_and_execute_command\<close> has no branch here.
\<close>

definition parse_and_execute_command :: "address \<Rightarrow> string \<Rightarrow> LaneFollowingCar \<Rightarrow> LaneFollowingCar" where
  "parse_and_execute_command client_address command_text s =
     (let parts = split CHR ''#'' (strip command_text) in
      if parts = [] then s
      else
        let command = upper (hd parts);
            args = (if length parts > 1 then tl parts else [])
        in case map_of commands command of
             Some handler \<Rightarrow>
               (case handler args s of
                  (response, s') \<Rightarrow>
                    if response \<noteq> []
                    then s'\<lparr>tcp_server := snd (send_command_response client_address response (tcp_server s'))\<rparr>
                    else s')
           | None \<Rightarrow>
               s\<lparr>tcp_server :=
                   snd (send_command_response client_address (''ERROR#Unknown command: '' @ command) (tcp_server s))\<rparr>)"

fun process_commands :: "(address \<times> string) list \<Rightarrow> LaneFollowingCar \<Rightarrow> LaneFollowingCar" where
  \<comment> \<open>the inner loop of \<open>process_commands\<close> over the entries taken from the queue\<close>
  "process_commands [] s = s"
| "process_commands ((client_address, command_text) # q) s =
     process_commands q (parse_and_execute_command client_address command_text s)"

definition new_sock :: sock where
  \<comment> \<open>a socket as \<open>accept\<close> returns it, on a connection that stays up\<close>
  "new_sock = \<lparr>sock_closed = False, fail_after = None, sent = []\<rparr>"

definition car0 :: LaneFollowingCar where
  \<comment> \<open>a car as constructed, with a working motor board\<close>
  "car0 = car_init True (\<lambda>_. new_sock)"

section \<open>The reader of the video channel\<close>

text \<open>
  The receiving end of the video channel is not part of the repository. The conformance
  reader below follows the wire format as the specification words it: a four-byte
  little-endian unsigned length, then that many bytes of payload. It returns the payload
  and the bytes left over, or nothing when the input is too short.
\<close>

definition le_value :: "byte list \<Rightarrow> nat" where
  \<comment> \<open>the number a little-endian byte sequence stands for\<close>
  "le_value bs = foldr (\<lambda>b n. unat b + 256 * n) bs 0"

definition conformance_reader :: "byte list \<Rightarrow> (byte list \<times> byte list) option" where
  "conformance_reader bs =
     (if length bs < 4 then None
      else let n = le_value (take 4 bs); rest = drop 4 bs
           in if length rest < n then None else Some (take n rest, drop n rest))"

definition two_sends_ok :: "sock \<Rightarrow> bool" where
  \<comment> \<open>the socket is open and the peer takes at least two more \<open>sendall\<close> calls\<close>
  "two_sends_ok k = (\<not> sock_closed k \<and> fail_after k \<noteq> Some 0 \<and> fail_after k \<noteq> Some 1)"

section \<open>The server as a transition system\<close>

text \<open>
  The threads of the server meet in the two registries. Each event below is one step of
  one thread: an \<open>accept\<close> that returned in either accept loop (the only places that
  insert into a registry), a chunk read by a client's read loop, the end of a read loop,
  a frame broadcast, a response, the shutdown. A broadcast whose \<open>struct.pack\<close> raises
  ends before any send and leaves the server as it was.
\<close>

datatype tcp_event =
    AcceptCommand socket address
  | AcceptVideo socket address
  | ClientReceived address string
  | ClientFinished socket
  | SendVideo "byte list"
  | SendResponse address string
  | StopServer

fun tcp_step :: "TCPServer \<Rightarrow> tcp_event \<Rightarrow> TCPServer" where
  "tcp_step srv (AcceptCommand c a) = accept_command_client c a srv"
| "tcp_step srv (AcceptVideo c a) = accept_video_client c a srv"
| "tcp_step srv (ClientReceived a command) = client_received a command srv"
| "tcp_step srv (ClientFinished c) = client_finished c srv"
| "tcp_step srv (SendVideo frame_data) =
     (case send_video_data frame_data srv of Inl e \<Rightarrow> srv | Inr (ok, srv') \<Rightarrow> srv')"
| "tcp_step srv (SendResponse a response) = snd (send_command_response a response srv)"
| "tcp_step srv StopServer = stop_server srv"

definition tcp_run :: "TCPServer \<Rightarrow> tcp_event list \<Rightarrow> TCPServer" where
  "tcp_run srv evs = foldl tcp_step srv evs"

definition srv1 :: TCPServer where
  \<comment> \<open>a server as constructed, after its video channel accepted one client\<close>
  "srv1 = accept_video_client 7 (''192.168.1.9'', 40000) (tcp_init (\<lambda>_. new_sock))"

definition srv2 :: TCPServer where
  \<comment> \<open>a server as constructed, after each channel accepted one client\<close>
  "srv2 = accept_command_client 3 (''192.168.1.7'', 50000) srv1"

definition within_capacity :: "TCPServer \<Rightarrow> bool" where
  \<comment> \<open>the invariant of the registries\<close>
  "within_capacity srv =
     (max_clients srv = 1 \<and> length (command_clients srv) \<le> max_clients srv \<and>
      length (video_clients srv) \<le> max_clients srv)"

section \<open>The camera as a transition system\<close>

text \<open>
  The threads that meet in the camera: the callers of \<open>start_streaming\<close>,
  \<open>stop_streaming\<close> and \<open>close\<close>, the encoder that hands a frame to its output, and the
  callers of \<open>get_frame\<close>. A thread is blocked when it waits on the condition of some
  \<open>StreamingOutput\<close>; it is stranded when that object is not the one a running encoder
  writes to.
\<close>

datatype cam_event =
    StartStreaming
  | StopStreaming
  | EncoderFrame "byte list"
  | GetFrame thread
  | CloseCamera

fun cam_step :: "Camera \<Rightarrow> cam_event \<Rightarrow> Camera" where
  "cam_step c StartStreaming = start_streaming c"
| "cam_step c StopStreaming = stop_streaming c"
| "cam_step c (EncoderFrame buf) = encoder_frame buf c"
| "cam_step c (GetFrame t) = snd (get_frame t c)"
| "cam_step c CloseCamera = close c"

definition cam_run :: "Camera \<Rightarrow> cam_event list \<Rightarrow> Camera" where
  "cam_run c evs = foldl cam_step c evs"

definition blocked :: "thread \<Rightarrow> Camera \<Rightarrow> bool" where
  "blocked t c = (\<exists>i < length (outputs c). t \<in> set (waiting (outputs c ! i)))"

definition stranded :: "thread \<Rightarrow> Camera \<Rightarrow> bool" where
  "stranded t c =
     (\<exists>i < length (outputs c). t \<in> set (waiting (outputs c ! i)) \<and> encoding_to c \<noteq> Some i)"

definition cam1 :: Camera where
  \<comment> \<open>streaming was started, then thread 1 called \<open>get_frame\<close>\<close>
  "cam1 = snd (get_frame 1 (start_streaming camera_init))"

section \<open>Auxiliary facts\<close>

lemma split_from_not_Nil: "split_from sep cur s \<noteq> []"
  by (induction s arbitrary: cur) auto

lemma split_not_Nil: "split sep s \<noteq> []"
  by (simp add: split_def split_from_not_Nil)

lemma responses_send_command_response:
  "responses (snd (send_command_response a r srv)) = responses srv @ [(a, r)]"
  by (simp add: send_command_response_def Let_def split: option.splits sum.splits)

lemma clients_send_command_response:
  "command_clients (snd (send_command_response a r srv)) = command_clients srv"
  "video_clients (snd (send_command_response a r srv)) = video_clients srv"
  by (simp_all add: send_command_response_def Let_def split: option.splits sum.splits)

lemma map_of_commands:
  "map_of commands v =
     (if v = ''MOTOR'' then Some handle_motor_command
      else if v = ''STOP'' then Some handle_stop_command
      else if v = ''STREAM'' then Some handle_stream_command
      else if v = ''STATUS'' then Some handle_status_command
      else None)"
  by (simp add: commands_def)

lemma dispatch_handler:
  assumes "split CHR ''#'' (strip command_text) = verb # args"
    and "map_of commands (upper verb) = Some handler"
    and "handler args s = (response, s')"
    and "response \<noteq> []"
  shows "parse_and_execute_command client_address command_text s =
         s'\<lparr>tcp_server := snd (send_command_response client_address response (tcp_server s'))\<rparr>"
proof -
  have "(if length (verb # args) > 1 then tl (verb # args) else []) = args"
    by (cases args) simp_all
  then show ?thesis
    using assms by (simp add: parse_and_execute_command_def Let_def)
qed

lemma dispatch_unknown:
  assumes "map_of commands (upper (hd (split CHR ''#'' (strip command_text)))) = None"
  shows "parse_and_execute_command client_address command_text s =
         s\<lparr>tcp_server := snd (send_command_response client_address
             (''ERROR#Unknown command: '' @ upper (hd (split CHR ''#'' (strip command_text)))) (tcp_server s))\<rparr>"
  using assms by (simp add: parse_and_execute_command_def Let_def split_not_Nil)

lemma ints_four:
  assumes "py_int a0 = Inr v0" "py_int a1 = Inr v1" "py_int a2 = Inr v2" "py_int a3 = Inr v3"
  shows "ints [a0, a1, a2, a3] = Inr [v0, v1, v2, v3]"
  using assms by simp

lemma ints_fail:
  assumes "a \<in> set args" "py_int a = Inl e"
  shows "\<exists>e'. ints args = Inl e'"
  using assms by (induction args) (auto split: sum.splits)

lemma handle_motor_command_ok:
  assumes "py_int a0 = Inr v0" "py_int a1 = Inr v1" "py_int a2 = Inr v2" "py_int a3 = Inr v3"
  shows "handle_motor_command [a0, a1, a2, a3] s =
         (''OK#MOTOR'', s\<lparr>motor_controller := set_motor_speeds v0 v1 v2 v3 (motor_controller s)\<rparr>)"
  using assms by (simp add: handle_motor_command_def)

lemma handle_motor_command_error:
  assumes "length args \<noteq> 4 \<or> (\<exists>a \<in> set args. \<exists>e. py_int a = Inl e)"
  shows "\<exists>msg. handle_motor_command args s = (''ERROR#'' @ msg, s)"
proof (cases "length args \<noteq> 4")
  case True
  then show ?thesis by (simp add: handle_motor_command_def)
next
  case False
  with assms obtain a e where "a \<in> set args" "py_int a = Inl e" by blast
  then obtain e' where "ints args = Inl e'" using ints_fail by blast
  with False show ?thesis by (simp add: handle_motor_command_def)
qed

lemma speed_calls_set_motor:
  "speed_calls (set_motor i d m) = speed_calls m"
  by (simp add: set_motor_def pwm2_def set_motor_pwm_def Let_def)

lemma initialized_set_motor:
  "initialized (set_motor i d m) = initialized m"
  by (simp add: set_motor_def pwm2_def set_motor_pwm_def Let_def)

lemma speed_calls_set_motor_speeds:
  "speed_calls (set_motor_speeds a b c d m) = speed_calls m @ [(a, b, c, d)]"
  by (simp add: set_motor_speeds_def Let_def speed_calls_set_motor)

lemma initialized_set_motor_speeds:
  "initialized (set_motor_speeds a b c d m) = initialized m"
  by (simp add: set_motor_speeds_def Let_def initialized_set_motor)

lemma pwm_set_motor_speeds_degraded:
  "\<not> initialized m \<Longrightarrow> pwm (set_motor_speeds a b c d m) = pwm m"
  by (simp add: set_motor_speeds_def Let_def)

lemma duty_range_idem: "duty_range (duty_range d) = duty_range d"
  by (simp add: duty_range_def)

lemma duty_range_bounds: "- 4095 \<le> duty_range d \<and> duty_range d \<le> 4095"
  by (simp add: duty_range_def)

lemma set_motor_clamped: "set_motor i (duty_range d) m = set_motor i d m"
  by (simp add: set_motor_def duty_range_idem)

lemma pwm_pwm2: "pwm (pwm2 c1 d1 c2 d2 m) = pwm m @ [(c1, d1), (c2, d2)]"
  by (simp add: pwm2_def set_motor_pwm_def)

lemma pwm_set_motor:
  "\<exists>new. pwm (set_motor i d m) = pwm m @ new \<and> (\<forall>p \<in> set new. 0 \<le> snd p \<and> snd p \<le> 4095)"
  using duty_range_bounds [of d]
  by (auto simp add: set_motor_def pwm_pwm2 Let_def)

lemma set_motor_speed_calls_update:
  "set_motor i d (m\<lparr>speed_calls := x\<rparr>) = (set_motor i d m)\<lparr>speed_calls := x\<rparr>"
  by (simp add: set_motor_def pwm2_def set_motor_pwm_def Let_def)

lemma pwm_set_motor_speeds:
  "\<exists>new. pwm (set_motor_speeds a b c d m) = pwm m @ new \<and> (\<forall>p \<in> set new. 0 \<le> snd p \<and> snd p \<le> 4095)"
proof (cases "initialized m")
  case False
  then show ?thesis by (simp add: set_motor_speeds_def Let_def)
next
  case True
  define m0 where "m0 = m\<lparr>speed_calls := speed_calls m @ [(a, b, c, d)]\<rparr>"
  define m1 where "m1 = set_motor 0 (duty_range a) m0"
  define m2 where "m2 = set_motor 1 (duty_range b) m1"
  define m3 where "m3 = set_motor 2 (duty_range c) m2"
  define m4 where "m4 = set_motor 3 (duty_range d) m3"
  have eq: "set_motor_speeds a b c d m = m4"
    using True by (simp add: set_motor_speeds_def Let_def m0_def m1_def m2_def m3_def m4_def)
  have p0: "pwm m0 = pwm m" by (simp add: m0_def)
  obtain n1 where n1: "pwm m1 = pwm m0 @ n1" "\<forall>p \<in> set n1. 0 \<le> snd p \<and> snd p \<le> 4095"
    unfolding m1_def using pwm_set_motor by blast
  obtain n2 where n2: "pwm m2 = pwm m1 @ n2" "\<forall>p \<in> set n2. 0 \<le> snd p \<and> snd p \<le> 4095"
    unfolding m2_def using pwm_set_motor by blast
  obtain n3 where n3: "pwm m3 = pwm m2 @ n3" "\<forall>p \<in> set n3. 0 \<le> snd p \<and> snd p \<le> 4095"
    unfolding m3_def using pwm_set_motor by blast
  obtain n4 where n4: "pwm m4 = pwm m3 @ n4" "\<forall>p \<in> set n4. 0 \<le> snd p \<and> snd p \<le> 4095"
    unfolding m4_def using pwm_set_motor by blast
  have "pwm m4 = pwm m @ (n1 @ n2 @ n3 @ n4)"
    by (simp add: n4(1) n3(1) n2(1) n1(1) p0)
  moreover have "\<forall>p \<in> set (n1 @ n2 @ n3 @ n4). 0 \<le> snd p \<and> snd p \<le> 4095"
    using n1(2) n2(2) n3(2) n4(2) by auto
  ultimately show ?thesis unfolding eq by blast
qed

lemma pwm_set_motor_speeds_clamped:
  "pwm (set_motor_speeds (duty_range a) (duty_range b) (duty_range c) (duty_range d) m) =
   pwm (set_motor_speeds a b c d m)"
  by (simp add: set_motor_speeds_def Let_def duty_range_idem set_motor_speed_calls_update)

lemma motor_dispatch_ok:
  assumes "split CHR ''#'' (strip command_text) = verb # [a0, a1, a2, a3]"
    and "upper verb = ''MOTOR''"
    and "py_int a0 = Inr v0" "py_int a1 = Inr v1" "py_int a2 = Inr v2" "py_int a3 = Inr v3"
  shows "parse_and_execute_command client_address command_text s =
         s\<lparr>motor_controller := set_motor_speeds v0 v1 v2 v3 (motor_controller s),
           tcp_server := snd (send_command_response client_address ''OK#MOTOR'' (tcp_server s))\<rparr>"
proof -
  have h: "map_of commands (upper verb) = Some handle_motor_command"
    using assms(2) by (simp add: map_of_commands)
  show ?thesis
    using dispatch_handler [OF assms(1) h handle_motor_command_ok [OF assms(3-6)]]
    by simp
qed

lemma motor_dispatch_error:
  assumes "split CHR ''#'' (strip command_text) = verb # args"
    and "upper verb = ''MOTOR''"
    and "length args \<noteq> 4 \<or> (\<exists>a \<in> set args. \<exists>e. py_int a = Inl e)"
  shows "\<exists>msg. parse_and_execute_command client_address command_text s =
         s\<lparr>tcp_server := snd (send_command_response client_address (''ERROR#'' @ msg) (tcp_server s))\<rparr>"
proof -
  have h: "map_of commands (upper verb) = Some handle_motor_command"
    using assms(2) by (simp add: map_of_commands)
  obtain msg where m: "handle_motor_command args s = (''ERROR#'' @ msg, s)"
    using handle_motor_command_error [OF assms(3)] by blast
  have "parse_and_execute_command client_address command_text s =
         s\<lparr>tcp_server := snd (send_command_response client_address (''ERROR#'' @ msg) (tcp_server s))\<rparr>"
    using dispatch_handler [OF assms(1) h m] by simp
  then show ?thesis by blast
qed

lemma stop_dispatch:
  assumes "split CHR ''#'' (strip command_text) = verb # args"
    and "upper verb = ''STOP''"
  shows "parse_and_execute_command client_address command_text s =
         s\<lparr>motor_controller := motor_stop (motor_controller s),
           tcp_server := snd (send_command_response client_address ''OK#STOP'' (tcp_server s))\<rparr>"
proof -
  have h: "map_of commands (upper verb) = Some handle_stop_command"
    using assms(2) by (simp add: map_of_commands)
  have r: "handle_stop_command args s = (''OK#STOP'', s\<lparr>motor_controller := motor_stop (motor_controller s)\<rparr>)"
    by (simp add: handle_stop_command_def)
  show ?thesis
    using dispatch_handler [OF assms(1) h r] by simp
qed

section \<open>The text model at some inputs\<close>

text \<open>
  Text outside ASCII, written as its UTF-8 bytes: the no-break space U+00A0 is
  \<open>C2 A0\<close>, the next-line control U+0085 is \<open>C2 85\<close>, the ideographic space U+3000 is
  \<open>E3 80 80\<close>, the Arabic-Indic digits one and two are \<open>D9 A1\<close> and \<open>D9 A2\<close>, the letters
  U+00E9, U+00C9, U+00DF, U+00FF, U+0178 and U+017F are \<open>C3 A9\<close>, \<open>C3 89\<close>, \<open>C3 9F\<close>,
  \<open>C3 BF\<close>, \<open>C5 B8\<close> and \<open>C5 BF\<close>.
\<close>

lemma strip_unicode_blanks:
  "strip ([CHR 0xC2, CHR 0x85] @ ''stop'' @ [CHR 0xE3, CHR 0x80, CHR 0x80]) = ''stop''"
  "strip [CHR 0xC2, CHR 0xA0, CHR 0x1C, CHR ''x'', CHR 0x0A] = ''x''"
  by code_simp+

lemma upper_unicode_letters:
  "upper [CHR 0xC3, CHR 0xA9] = [CHR 0xC3, CHR 0x89]"
  "upper [CHR 0xC3, CHR 0x9F] = ''SS''"
  "upper [CHR 0xC3, CHR 0xBF] = [CHR 0xC5, CHR 0xB8]"
  "upper ([CHR 0xC5, CHR 0xBF] @ ''tart'') = ''START''"
  by code_simp+

lemma int_unicode_literals:
  "py_int [CHR 0xC2, CHR 0xA0, CHR ''5''] = Inr 5"
  "py_int [CHR 0xD9, CHR 0xA1, CHR 0xD9, CHR 0xA2] = Inr 12"
  "py_int '' -4_095\<newline>'' = Inr (- 4095)"
  by code_simp+

lemma int_rejected_literals:
  "py_int [CHR 0x1C, CHR ''5''] = Inl (invalid_literal [CHR 0x1C, CHR ''5''])"
  "py_int ''1__0'' = Inl (invalid_literal ''1__0'')"
  "py_int ''0x10'' = Inl (invalid_literal ''0x10'')"
  "str_of_error (invalid_literal [CHR 0xC2, CHR 0x85]) =
     ''invalid literal for int() with base 10: '' @ [CHR 0x27, CHR 0x5C] @ ''x85'' @ [CHR 0x27]"
  by code_simp+

lemma next_line_stop_runs:
  "responses (tcp_server (parse_and_execute_command (''192.168.1.7'', 50000)
       ([CHR 0xC2, CHR 0x85] @ ''stop'') car0)) = [((''192.168.1.7'', 50000), ''OK#STOP'')]"
  "speed_calls (motor_controller (parse_and_execute_command (''192.168.1.7'', 50000)
       ([CHR 0xC2, CHR 0x85] @ ''stop'') car0)) = [(0, 0, 0, 0)]"
proof -
  have p: "split CHR ''#'' (strip ([CHR 0xC2, CHR 0x85] @ ''stop'')) = ''stop'' # []"
    by code_simp
  have u: "upper ''stop'' = ''STOP''"
    by code_simp
  show "responses (tcp_server (parse_and_execute_command (''192.168.1.7'', 50000)
       ([CHR 0xC2, CHR 0x85] @ ''stop'') car0)) = [((''192.168.1.7'', 50000), ''OK#STOP'')]"
    using stop_dispatch [OF p u, of "(''192.168.1.7'', 50000)" car0]
    by (simp add: responses_send_command_response car0_def car_init_def tcp_init_def)
  show "speed_calls (motor_controller (parse_and_execute_command (''192.168.1.7'', 50000)
       ([CHR 0xC2, CHR 0x85] @ ''stop'') car0)) = [(0, 0, 0, 0)]"
    using stop_dispatch [OF p u, of "(''192.168.1.7'', 50000)" car0]
    by (simp add: motor_stop_def speed_calls_set_motor_speeds car0_def car_init_def motor_init_def)
qed

lemma no_break_space_motor_runs:
  "responses (tcp_server (parse_and_execute_command (''192.168.1.7'', 50000)
       (''MOTOR#'' @ [CHR 0xC2, CHR 0xA0] @ ''5#1#1#1'') car0)) = [((''192.168.1.7'', 50000), ''OK#MOTOR'')]"
  "speed_calls (motor_controller (parse_and_execute_command (''192.168.1.7'', 50000)
       (''MOTOR#'' @ [CHR 0xC2, CHR 0xA0] @ ''5#1#1#1'') car0)) = [(5, 1, 1, 1)]"
proof -
  have p: "split CHR ''#'' (strip (''MOTOR#'' @ [CHR 0xC2, CHR 0xA0] @ ''5#1#1#1'')) =
           ''MOTOR'' # [[CHR 0xC2, CHR 0xA0, CHR ''5''], ''1'', ''1'', ''1'']"
    by code_simp
  have u: "upper ''MOTOR'' = ''MOTOR''"
    by code_simp
  have i: "py_int [CHR 0xC2, CHR 0xA0, CHR ''5''] = Inr 5" "py_int ''1'' = Inr 1"
    by code_simp+
  show "responses (tcp_server (parse_and_execute_command (''192.168.1.7'', 50000)
       (''MOTOR#'' @ [CHR 0xC2, CHR 0xA0] @ ''5#1#1#1'') car0)) = [((''192.168.1.7'', 50000), ''OK#MOTOR'')]"
    using motor_dispatch_ok [OF p u i(1) i(2) i(2) i(2), of "(''192.168.1.7'', 50000)" car0]
    by (simp add: responses_send_command_response car0_def car_init_def tcp_init_def)
  show "speed_calls (motor_controller (parse_and_execute_command (''192.168.1.7'', 50000)
       (''MOTOR#'' @ [CHR 0xC2, CHR 0xA0] @ ''5#1#1#1'') car0)) = [(5, 1, 1, 1)]"
    using motor_dispatch_ok [OF p u i(1) i(2) i(2) i(2), of "(''192.168.1.7'', 50000)" car0]
    by (simp add: speed_calls_set_motor_speeds car0_def car_init_def motor_init_def)
qed

lemma stream_token_outside_ascii:
  "handle_stream_command [[CHR 0xC3, CHR 0xA9]] car0 =
     (''ERROR#Unknown streaming command: '' @ [CHR 0xC3, CHR 0x89], car0)"
proof -
  have "upper [CHR 0xC3, CHR 0xA9] = [CHR 0xC3, CHR 0x89]"
    by code_simp
  then show ?thesis
    by (simp add: handle_stream_command_def Let_def)
qed

section \<open>The claims\<close>

text \<open>
  C1. A dispatched MOTOR command whose argument list is exactly four integer tokens, each
  with a value in \<open>[-4095, 4095]\<close>, is answered \<open>OK#MOTOR\<close>, and \<open>set_motor_speeds\<close> is
  invoked once, with these four values in the order of the command; none of them is
  changed by the clamp.
\<close>

theorem motor_command_forwarded:
  assumes "split CHR ''#'' (strip command_text) = verb # [a0, a1, a2, a3]"
    and "upper verb = ''MOTOR''"
    and "py_int a0 = Inr v0" "py_int a1 = Inr v1" "py_int a2 = Inr v2" "py_int a3 = Inr v3"
    and "\<forall>v \<in> set [v0, v1, v2, v3]. - 4095 \<le> v \<and> v \<le> 4095"
  shows "responses (tcp_server (parse_and_execute_command client_address command_text s)) =
           responses (tcp_server s) @ [(client_address, ''OK#MOTOR'')] \<and>
         speed_calls (motor_controller (parse_and_execute_command client_address command_text s)) =
           speed_calls (motor_controller s) @ [(v0, v1, v2, v3)] \<and>
         map duty_range [v0, v1, v2, v3] = [v0, v1, v2, v3]"
proof -
  have "map duty_range [v0, v1, v2, v3] = [v0, v1, v2, v3]"
    using assms(7) by (simp add: duty_range_def)
  then show ?thesis
    by (simp add: motor_dispatch_ok [OF assms(1-6)] responses_send_command_response
        speed_calls_set_motor_speeds)
qed

theorem motor_command_forwarded_witness:
  "split CHR ''#'' (strip ''motor#100#-200# 30 #+4_0\<newline>'') = ''motor'' # [''100'', ''-200'', '' 30 '', ''+4_0''] \<and>
   upper ''motor'' = ''MOTOR'' \<and>
   py_int ''100'' = Inr 100 \<and> py_int ''-200'' = Inr (- 200) \<and> py_int '' 30 '' = Inr 30 \<and> py_int ''+4_0'' = Inr 40 \<and>
   - 4095 \<le> (100 :: int) \<and> (100 :: int) \<le> 4095 \<and> - 4095 \<le> (- 200 :: int) \<and> (- 200 :: int) \<le> 4095 \<and>
   - 4095 \<le> (30 :: int) \<and> (30 :: int) \<le> 4095 \<and> - 4095 \<le> (40 :: int) \<and> (40 :: int) \<le> 4095 \<and>
   responses (tcp_server (parse_and_execute_command (''192.168.1.7'', 50000) ''motor#100#-200# 30 #+4_0\<newline>''
       (car_init True (\<lambda>_. new_sock)))) = [((''192.168.1.7'', 50000), ''OK#MOTOR'')] \<and>
   speed_calls (motor_controller (parse_and_execute_command (''192.168.1.7'', 50000) ''motor#100#-200# 30 #+4_0\<newline>''
       (car_init True (\<lambda>_. new_sock)))) = [(100, - 200, 30, 40)]"
proof -
  have h1: "split CHR ''#'' (strip ''motor#100#-200# 30 #+4_0\<newline>'') = ''motor'' # [''100'', ''-200'', '' 30 '', ''+4_0'']"
    by code_simp
  have h2: "upper ''motor'' = ''MOTOR''" by code_simp
  have h3: "py_int ''100'' = Inr 100" "py_int ''-200'' = Inr (- 200)" "py_int '' 30 '' = Inr 30" "py_int ''+4_0'' = Inr 40"
    by code_simp+
  have h4: "\<forall>v \<in> set [100, - 200, 30, 40 :: int]. - 4095 \<le> v \<and> v \<le> 4095" by simp
  show ?thesis
    using motor_command_forwarded [OF h1 h2 h3 h4, of "(''192.168.1.7'', 50000)" "car_init True (\<lambda>_. new_sock)"] h1 h2 h3
    by (simp add: car_init_def tcp_init_def motor_init_def)
qed

text \<open>
  C2. A dispatched MOTOR command whose argument list does not have four tokens, or has a
  token that \<open>int\<close> rejects, is answered by a text that begins \<open>ERROR#\<close>, and
  \<open>set_motor_speeds\<close> is not invoked: the motor driver, its log of invocations included,
  is as before.
\<close>

theorem motor_command_rejected:
  assumes "split CHR ''#'' (strip command_text) = verb # args"
    and "upper verb = ''MOTOR''"
    and "length args \<noteq> 4 \<or> (\<exists>a \<in> set args. \<exists>e. py_int a = Inl e)"
  shows "\<exists>msg. responses (tcp_server (parse_and_execute_command client_address command_text s)) =
           responses (tcp_server s) @ [(client_address, ''ERROR#'' @ msg)] \<and>
         motor_controller (parse_and_execute_command client_address command_text s) = motor_controller s \<and>
         speed_calls (motor_controller (parse_and_execute_command client_address command_text s)) =
           speed_calls (motor_controller s)"
proof -
  obtain msg where "parse_and_execute_command client_address command_text s =
         s\<lparr>tcp_server := snd (send_command_response client_address (''ERROR#'' @ msg) (tcp_server s))\<rparr>"
    using motor_dispatch_error [OF assms] by blast
  then show ?thesis
    by (simp add: responses_send_command_response)
qed

theorem motor_command_rejected_witness:
  "split CHR ''#'' (strip ''MOTOR#1#2#x#4'') = ''MOTOR'' # [''1'', ''2'', ''x'', ''4''] \<and>
   upper ''MOTOR'' = ''MOTOR'' \<and>
   (\<exists>e. py_int ''x'' = Inl e) \<and>
   split CHR ''#'' (strip ''MOTOR#1#2#3'') = ''MOTOR'' # [''1'', ''2'', ''3''] \<and>
   length [''1'', ''2'', ''3''] \<noteq> 4 \<and>
   (\<exists>msg. responses (tcp_server (parse_and_execute_command (''192.168.1.7'', 50000) ''MOTOR#1#2#x#4''
       (car_init True (\<lambda>_. new_sock)))) = [((''192.168.1.7'', 50000), ''ERROR#'' @ msg)]) \<and>
   speed_calls (motor_controller (parse_and_execute_command (''192.168.1.7'', 50000) ''MOTOR#1#2#x#4''
       (car_init True (\<lambda>_. new_sock)))) = [] \<and>
   (\<exists>msg. responses (tcp_server (parse_and_execute_command (''192.168.1.7'', 50000) ''MOTOR#1#2#3''
       (car_init True (\<lambda>_. new_sock)))) = [((''192.168.1.7'', 50000), ''ERROR#'' @ msg)]) \<and>
   speed_calls (motor_controller (parse_and_execute_command (''192.168.1.7'', 50000) ''MOTOR#1#2#3''
       (car_init True (\<lambda>_. new_sock)))) = []"
proof -
  have h1: "split CHR ''#'' (strip ''MOTOR#1#2#x#4'') = ''MOTOR'' # [''1'', ''2'', ''x'', ''4'']"
    by code_simp
  have h2: "upper ''MOTOR'' = ''MOTOR''" by code_simp
  have "py_int ''x'' = Inl (invalid_literal ''x'')"
    by code_simp
  then have h3: "\<exists>e. py_int ''x'' = Inl e"
    by blast
  have h3': "length [''1'', ''2'', ''x'', ''4''] \<noteq> 4 \<or> (\<exists>a \<in> set [''1'', ''2'', ''x'', ''4'']. \<exists>e. py_int a = Inl e)"
    using h3 by simp
  have g1: "split CHR ''#'' (strip ''MOTOR#1#2#3'') = ''MOTOR'' # [''1'', ''2'', ''3'']"
    by code_simp
  have g3: "length [''1'', ''2'', ''3''] \<noteq> 4 \<or> (\<exists>a \<in> set [''1'', ''2'', ''3'']. \<exists>e. py_int a = Inl e)"
    by simp
  show ?thesis
    using motor_command_rejected [OF h1 h2 h3', of "(''192.168.1.7'', 50000)" "car_init True (\<lambda>_. new_sock)"]
      motor_command_rejected [OF g1 h2 g3, of "(''192.168.1.7'', 50000)" "car_init True (\<lambda>_. new_sock)"]
      h1 h2 h3 g1
    by (simp add: car_init_def tcp_init_def motor_init_def)
qed

text \<open>
  C7. The clamp \<open>_duty_range\<close> returns 4095 above 4095, -4095 below -4095 and its argument
  otherwise. A dispatched MOTOR command with four integer arguments, in range or not, is
  answered \<open>OK#MOTOR\<close>; the PWM calls it causes are those of the command with each value
  clamped, and every duty handed to the board lies in \<open>[0, 4095]\<close>.
\<close>

theorem duty_range_clamps:
  "(d > 4095 \<longrightarrow> duty_range d = 4095) \<and>
   (d < - 4095 \<longrightarrow> duty_range d = - 4095) \<and>
   (- 4095 \<le> d \<and> d \<le> 4095 \<longrightarrow> duty_range d = d) \<and>
   (split CHR ''#'' (strip command_text) = verb # [a0, a1, a2, a3] \<and> upper verb = ''MOTOR'' \<and>
    py_int a0 = Inr v0 \<and> py_int a1 = Inr v1 \<and> py_int a2 = Inr v2 \<and> py_int a3 = Inr v3 \<longrightarrow>
      responses (tcp_server (parse_and_execute_command client_address command_text s)) =
        responses (tcp_server s) @ [(client_address, ''OK#MOTOR'')] \<and>
      pwm (motor_controller (parse_and_execute_command client_address command_text s)) =
        pwm (set_motor_speeds (duty_range v0) (duty_range v1) (duty_range v2) (duty_range v3) (motor_controller s)) \<and>
      (\<exists>new. pwm (motor_controller (parse_and_execute_command client_address command_text s)) =
               pwm (motor_controller s) @ new \<and>
             (\<forall>p \<in> set new. 0 \<le> snd p \<and> snd p \<le> 4095)))"
proof -
  have clamp: "(d > 4095 \<longrightarrow> duty_range d = 4095) \<and> (d < - 4095 \<longrightarrow> duty_range d = - 4095) \<and>
    (- 4095 \<le> d \<and> d \<le> 4095 \<longrightarrow> duty_range d = d)"
    by (simp add: duty_range_def)
  have cmd: "responses (tcp_server (parse_and_execute_command client_address command_text s)) =
        responses (tcp_server s) @ [(client_address, ''OK#MOTOR'')] \<and>
      pwm (motor_controller (parse_and_execute_command client_address command_text s)) =
        pwm (set_motor_speeds (duty_range v0) (duty_range v1) (duty_range v2) (duty_range v3) (motor_controller s)) \<and>
      (\<exists>new. pwm (motor_controller (parse_and_execute_command client_address command_text s)) =
               pwm (motor_controller s) @ new \<and>
             (\<forall>p \<in> set new. 0 \<le> snd p \<and> snd p \<le> 4095))"
    if h: "split CHR ''#'' (strip command_text) = verb # [a0, a1, a2, a3]" "upper verb = ''MOTOR''"
      "py_int a0 = Inr v0" "py_int a1 = Inr v1" "py_int a2 = Inr v2" "py_int a3 = Inr v3"
    using pwm_set_motor_speeds [of v0 v1 v2 v3 "motor_controller s"]
    by (simp add: motor_dispatch_ok [OF h] responses_send_command_response pwm_set_motor_speeds_clamped)
  show ?thesis using clamp cmd by blast
qed

theorem duty_range_clamps_witness:
  "(5000 :: int) > 4095 \<and> duty_range 5000 = 4095 \<and>
   (- 5000 :: int) < - 4095 \<and> duty_range (- 5000) = - 4095 \<and>
   - 4095 \<le> (- 17 :: int) \<and> (- 17 :: int) \<le> 4095 \<and> duty_range (- 17) = - 17 \<and>
   split CHR ''#'' (strip ''MOTOR#5000#-5000#0#-17'') = ''MOTOR'' # [''5000'', ''-5000'', ''0'', ''-17''] \<and>
   upper ''MOTOR'' = ''MOTOR'' \<and>
   py_int ''5000'' = Inr 5000 \<and> py_int ''-5000'' = Inr (- 5000) \<and> py_int ''0'' = Inr 0 \<and> py_int ''-17'' = Inr (- 17) \<and>
   responses (tcp_server (parse_and_execute_command (''192.168.1.7'', 50000) ''MOTOR#5000#-5000#0#-17''
       (car_init True (\<lambda>_. new_sock)))) = [((''192.168.1.7'', 50000), ''OK#MOTOR'')] \<and>
   pwm (motor_controller (parse_and_execute_command (''192.168.1.7'', 50000) ''MOTOR#5000#-5000#0#-17''
       (car_init True (\<lambda>_. new_sock)))) =
     [(0, 0), (1, 4095), (2, 0), (3, 4095), (6, 4095), (7, 4095), (5, 0), (4, 17)]"
proof -
  have h1: "split CHR ''#'' (strip ''MOTOR#5000#-5000#0#-17'') = ''MOTOR'' # [''5000'', ''-5000'', ''0'', ''-17'']"
    by code_simp
  have h2: "upper ''MOTOR'' = ''MOTOR''" by code_simp
  have h3: "py_int ''5000'' = Inr 5000" "py_int ''-5000'' = Inr (- 5000)" "py_int ''0'' = Inr 0" "py_int ''-17'' = Inr (- 17)"
    by code_simp+
  have p: "pwm (set_motor_speeds (duty_range 5000) (duty_range (- 5000)) (duty_range 0) (duty_range (- 17))
             (motor_controller (car_init True (\<lambda>_. new_sock)))) =
           [(0, 0), (1, 4095), (2, 0), (3, 4095), (6, 4095), (7, 4095), (5, 0), (4, 17)]"
    by (simp add: car_init_def motor_init_def set_motor_speeds_def set_motor_def duty_range_def
        pwm2_def set_motor_pwm_def Let_def)
  show ?thesis
    using duty_range_clamps [of 5000 "''MOTOR#5000#-5000#0#-17''" "''MOTOR''" "''5000''" "''-5000''" "''0''" "''-17''"
        5000 "- 5000" 0 "- 17" "(''192.168.1.7'', 50000)" "car_init True (\<lambda>_. new_sock)"]
      duty_range_clamps [of "- 5000"] duty_range_clamps [of "- 17"] h1 h2 h3 p
    by (simp add: car_init_def tcp_init_def motor_init_def)
qed

text \<open>
  C10. When the motor controller failed to initialise, a dispatched MOTOR command with four
  in-range integer arguments is still answered \<open>OK#MOTOR\<close>, and a dispatched STOP command
  \<open>OK#STOP\<close>, while no PWM call is made.
\<close>

theorem degraded_motor_acknowledged:
  assumes "\<not> initialized (motor_controller s)"
  shows "\<not> initialized (motor_init False) \<and>
    (split CHR ''#'' (strip motor_text) = verb # [a0, a1, a2, a3] \<and> upper verb = ''MOTOR'' \<and>
     py_int a0 = Inr v0 \<and> py_int a1 = Inr v1 \<and> py_int a2 = Inr v2 \<and> py_int a3 = Inr v3 \<and>
     - 4095 \<le> v0 \<and> v0 \<le> 4095 \<and> - 4095 \<le> v1 \<and> v1 \<le> 4095 \<and>
     - 4095 \<le> v2 \<and> v2 \<le> 4095 \<and> - 4095 \<le> v3 \<and> v3 \<le> 4095 \<longrightarrow>
       responses (tcp_server (parse_and_execute_command client_address motor_text s)) =
         responses (tcp_server s) @ [(client_address, ''OK#MOTOR'')] \<and>
       pwm (motor_controller (parse_and_execute_command client_address motor_text s)) =
         pwm (motor_controller s)) \<and>
    (split CHR ''#'' (strip stop_text) = verb' # args \<and> upper verb' = ''STOP'' \<longrightarrow>
       responses (tcp_server (parse_and_execute_command client_address stop_text s)) =
         responses (tcp_server s) @ [(client_address, ''OK#STOP'')] \<and>
       pwm (motor_controller (parse_and_execute_command client_address stop_text s)) =
         pwm (motor_controller s))"
proof -
  have init: "\<not> initialized (motor_init False)"
    by (simp add: motor_init_def)
  have motor: "responses (tcp_server (parse_and_execute_command client_address motor_text s)) =
         responses (tcp_server s) @ [(client_address, ''OK#MOTOR'')] \<and>
       pwm (motor_controller (parse_and_execute_command client_address motor_text s)) =
         pwm (motor_controller s)"
    if h: "split CHR ''#'' (strip motor_text) = verb # [a0, a1, a2, a3]" "upper verb = ''MOTOR''"
      "py_int a0 = Inr v0" "py_int a1 = Inr v1" "py_int a2 = Inr v2" "py_int a3 = Inr v3"
    using assms
    by (simp add: motor_dispatch_ok [OF h] responses_send_command_response
        pwm_set_motor_speeds_degraded)
  have stop: "responses (tcp_server (parse_and_execute_command client_address stop_text s)) =
         responses (tcp_server s) @ [(client_address, ''OK#STOP'')] \<and>
       pwm (motor_controller (parse_and_execute_command client_address stop_text s)) =
         pwm (motor_controller s)"
    if h: "split CHR ''#'' (strip stop_text) = verb' # args" "upper verb' = ''STOP''"
    using assms
    by (simp add: stop_dispatch [OF h] responses_send_command_response motor_stop_def
        pwm_set_motor_speeds_degraded)
  show ?thesis using init motor stop by blast
qed

theorem degraded_motor_acknowledged_witness:
  "\<not> initialized (motor_controller (car_init False (\<lambda>_. new_sock))) \<and>
   split CHR ''#'' (strip ''MOTOR#1500#1500#-1500#-1500'') = ''MOTOR'' # [''1500'', ''1500'', ''-1500'', ''-1500''] \<and>
   upper ''MOTOR'' = ''MOTOR'' \<and> py_int ''1500'' = Inr 1500 \<and> py_int ''-1500'' = Inr (- 1500) \<and>
   - 4095 \<le> (1500 :: int) \<and> (1500 :: int) \<le> 4095 \<and> - 4095 \<le> (- 1500 :: int) \<and> (- 1500 :: int) \<le> 4095 \<and>
   split CHR ''#'' (strip ''stop'') = ''stop'' # [] \<and> upper ''stop'' = ''STOP'' \<and>
   responses (tcp_server (parse_and_execute_command (''192.168.1.7'', 50000) ''MOTOR#1500#1500#-1500#-1500''
       (car_init False (\<lambda>_. new_sock)))) = [((''192.168.1.7'', 50000), ''OK#MOTOR'')] \<and>
   pwm (motor_controller (parse_and_execute_command (''192.168.1.7'', 50000) ''MOTOR#1500#1500#-1500#-1500''
       (car_init False (\<lambda>_. new_sock)))) = [] \<and>
   responses (tcp_server (parse_and_execute_command (''192.168.1.7'', 50000) ''stop''
       (car_init False (\<lambda>_. new_sock)))) = [((''192.168.1.7'', 50000), ''OK#STOP'')] \<and>
   pwm (motor_controller (parse_and_execute_command (''192.168.1.7'', 50000) ''stop''
       (car_init False (\<lambda>_. new_sock)))) = []"
proof -
  have h0: "\<not> initialized (motor_controller (car_init False (\<lambda>_. new_sock)))"
    by (simp add: car_init_def motor_init_def)
  have h1: "split CHR ''#'' (strip ''MOTOR#1500#1500#-1500#-1500'') = ''MOTOR'' # [''1500'', ''1500'', ''-1500'', ''-1500'']"
    by code_simp
  have h2: "upper ''MOTOR'' = ''MOTOR''" by code_simp
  have h3: "py_int ''1500'' = Inr 1500" "py_int ''-1500'' = Inr (- 1500)"
    by code_simp+
  have g1: "split CHR ''#'' (strip ''stop'') = ''stop'' # []" by code_simp
  have g2: "upper ''stop'' = ''STOP''" by code_simp
  show ?thesis
    using degraded_motor_acknowledged [OF h0, of "''MOTOR#1500#1500#-1500#-1500''" "''MOTOR''"
        "''1500''" "''1500''" "''-1500''" "''-1500''" 1500 1500 "- 1500" "- 1500" "(''192.168.1.7'', 50000)"
        "''stop''" "''stop''" "[]"]
      h0 h1 h2 h3 g1 g2
    by (simp add: car_init_def tcp_init_def motor_init_def)
qed

text \<open>
  C6, as the code has it. The parser first strips the blanks around the command text,
  then splits it at \<open>#\<close> (which always yields a first token) and takes the first token
  in upper case as the verb. When
  the verb is none of MOTOR, STOP, STREAM, STATUS, the response is
  \<open>ERROR#Unknown command: \<close> followed by the verb, and no handler runs: apart from the
  response handed to the server, the state of the car is as before.
\<close>

theorem unknown_command_rejected:
  assumes "upper (hd (split CHR ''#'' (strip command_text))) = verb"
    and "verb \<noteq> ''MOTOR''" "verb \<noteq> ''STOP''" "verb \<noteq> ''STREAM''" "verb \<noteq> ''STATUS''"
  shows "split CHR ''#'' (strip command_text) \<noteq> [] \<and>
    parse_and_execute_command client_address command_text s =
      s\<lparr>tcp_server := snd (send_command_response client_address (''ERROR#Unknown command: '' @ verb) (tcp_server s))\<rparr> \<and>
    responses (tcp_server (parse_and_execute_command client_address command_text s)) =
      responses (tcp_server s) @ [(client_address, ''ERROR#Unknown command: '' @ verb)] \<and>
    motor_controller (parse_and_execute_command client_address command_text s) = motor_controller s \<and>
    camera (parse_and_execute_command client_address command_text s) = camera s \<and>
    streaming (parse_and_execute_command client_address command_text s) = streaming s \<and>
    video_loops (parse_and_execute_command client_address command_text s) = video_loops s"
proof -
  have "map_of commands (upper (hd (split CHR ''#'' (strip command_text)))) = None"
    using assms by (simp add: map_of_commands)
  from dispatch_unknown [OF this] show ?thesis
    using assms(1) by (auto simp add: split_not_Nil responses_send_command_response)
qed

theorem unknown_command_rejected_witness:
  "upper (hd (split CHR ''#'' (strip '' foo#1#2\<newline>''))) = ''FOO'' \<and>
   ''FOO'' \<noteq> ''MOTOR'' \<and> ''FOO'' \<noteq> ''STOP'' \<and> ''FOO'' \<noteq> ''STREAM'' \<and> ''FOO'' \<noteq> ''STATUS'' \<and>
   responses (tcp_server (parse_and_execute_command (''192.168.1.7'', 50000) '' foo#1#2\<newline>''
       (car_init True (\<lambda>_. new_sock)))) = [((''192.168.1.7'', 50000), ''ERROR#Unknown command: FOO'')] \<and>
   motor_controller (parse_and_execute_command (''192.168.1.7'', 50000) '' foo#1#2\<newline>''
       (car_init True (\<lambda>_. new_sock))) = motor_init True"
proof -
  have h1: "upper (hd (split CHR ''#'' (strip '' foo#1#2\<newline>''))) = ''FOO''"
    by code_simp
  show ?thesis
    using unknown_command_rejected [OF h1, of "(''192.168.1.7'', 50000)" "car_init True (\<lambda>_. new_sock)"] h1
    by (simp add: car_init_def tcp_init_def responses_send_command_response)
qed

text \<open>
  C6, the claim as worded (the verb taken from the text as received) fails: the first
  token of \<open>stop\<close> followed by a newline, in upper case, is not in the table, and yet
  the command is executed.
\<close>

theorem unstripped_verb_counterexample:
  "upper (hd (split CHR ''#'' ''stop\<newline>'')) = ''STOP\<newline>'' \<and>
   ''STOP\<newline>'' \<noteq> ''MOTOR'' \<and> ''STOP\<newline>'' \<noteq> ''STOP'' \<and>
   ''STOP\<newline>'' \<noteq> ''STREAM'' \<and> ''STOP\<newline>'' \<noteq> ''STATUS'' \<and>
   responses (tcp_server (parse_and_execute_command (''192.168.1.7'', 50000) ''stop\<newline>'' car0)) =
     [((''192.168.1.7'', 50000), ''OK#STOP'')] \<and>
   speed_calls (motor_controller (parse_and_execute_command (''192.168.1.7'', 50000) ''stop\<newline>'' car0)) =
     [(0, 0, 0, 0)]"
proof -
  have v: "upper (hd (split CHR ''#'' ''stop\<newline>'')) = ''STOP\<newline>''"
    by code_simp
  have p: "split CHR ''#'' (strip ''stop\<newline>'') = ''stop'' # []"
    by code_simp
  have u: "upper ''stop'' = ''STOP''"
    by code_simp
  show ?thesis
    using v
    by (simp add: stop_dispatch [OF p u] responses_send_command_response motor_stop_def
        speed_calls_set_motor_speeds car0_def car_init_def tcp_init_def motor_init_def)
qed

lemma status_dispatch:
  assumes "split CHR ''#'' (strip command_text) = verb # args"
    and "upper verb = ''STATUS''"
  shows "parse_and_execute_command client_address command_text s =
         s\<lparr>tcp_server := snd (send_command_response client_address (fst (handle_status_command args s)) (tcp_server s))\<rparr>"
proof -
  have h: "map_of commands (upper verb) = Some handle_status_command"
    using assms(2) by (simp add: map_of_commands)
  have r: "handle_status_command args s = (fst (handle_status_command args s), s)"
    by (simp add: handle_status_command_def)
  have n: "fst (handle_status_command args s) \<noteq> []"
    by (simp add: handle_status_command_def)
  show ?thesis
    using dispatch_handler [OF assms(1) h r n] by simp
qed

lemma status_payload:
  \<open>fst (handle_status_command args s) =
     ''STATUS#{"running": '' @ json_bool (running s) @
     '', "streaming": '' @ json_bool (streaming s) @
     '', "video_clients": '' @ json_bool (video_clients (tcp_server s) \<noteq> []) @
     '', "command_clients": '' @ json_bool (command_clients (tcp_server s) \<noteq> []) @ ''}''\<close>
  by (simp add: handle_status_command_def json_dumps_def has_video_clients_def has_command_clients_def)

text \<open>
  C8. A dispatched STATUS command is answered \<open>STATUS#\<close> followed by the JSON object of the
  four booleans \<open>running\<close>, \<open>streaming\<close>, \<open>video_clients\<close> (some video client is
  registered) and \<open>command_clients\<close> (some command client is registered), read from the
  current state. With the car running, not streaming and no client registered the object
  is \<open>{"running": true, "streaming": false, "video_clients": false, "command_clients": false}\<close>.
\<close>

theorem status_command_reports_state:
  assumes \<open>split CHR ''#'' (strip command_text) = verb # args\<close>
    and \<open>upper verb = ''STATUS''\<close>
  shows \<open>responses (tcp_server (parse_and_execute_command client_address command_text s)) =
      responses (tcp_server s) @ [(client_address,
        ''STATUS#{"running": '' @ json_bool (running s) @
        '', "streaming": '' @ json_bool (streaming s) @
        '', "video_clients": '' @ json_bool (video_clients (tcp_server s) \<noteq> []) @
        '', "command_clients": '' @ json_bool (command_clients (tcp_server s) \<noteq> []) @ ''}'')] \<and>
    json_bool True = ''true'' \<and> json_bool False = ''false'' \<and>
    (running s \<and> \<not> streaming s \<and> video_clients (tcp_server s) = [] \<and> command_clients (tcp_server s) = [] \<longrightarrow>
      responses (tcp_server (parse_and_execute_command client_address command_text s)) =
        responses (tcp_server s) @ [(client_address,
          ''STATUS#{"running": true, "streaming": false, "video_clients": false, "command_clients": false}'')])\<close>
proof -
  have r: \<open>responses (tcp_server (parse_and_execute_command client_address command_text s)) =
      responses (tcp_server s) @ [(client_address, fst (handle_status_command args s))]\<close>
    by (simp add: status_dispatch [OF assms] responses_send_command_response)
  show ?thesis
    unfolding r status_payload by (simp add: json_bool_def)
qed

theorem status_command_reports_state_witness:
  \<open>split CHR ''#'' (strip ''status'') = ''status'' # [] \<and> upper ''status'' = ''STATUS'' \<and>
   running ((car_init True (\<lambda>_. new_sock))\<lparr>running := True\<rparr>) \<and>
   \<not> streaming ((car_init True (\<lambda>_. new_sock))\<lparr>running := True\<rparr>) \<and>
   video_clients (tcp_server ((car_init True (\<lambda>_. new_sock))\<lparr>running := True\<rparr>)) = [] \<and>
   command_clients (tcp_server ((car_init True (\<lambda>_. new_sock))\<lparr>running := True\<rparr>)) = [] \<and>
   responses (tcp_server (parse_and_execute_command (''192.168.1.7'', 50000) ''status''
       ((car_init True (\<lambda>_. new_sock))\<lparr>running := True\<rparr>))) =
     [((''192.168.1.7'', 50000),
       ''STATUS#{"running": true, "streaming": false, "video_clients": false, "command_clients": false}'')]\<close>
proof -
  have h1: "split CHR ''#'' (strip ''status'') = ''status'' # []" by code_simp
  have h2: "upper ''status'' = ''STATUS''" by code_simp
  show ?thesis
    using status_command_reports_state [OF h1 h2, of "(''192.168.1.7'', 50000)"
        "(car_init True (\<lambda>_. new_sock))\<lparr>running := True\<rparr>"] h1 h2
    by (simp add: car_init_def tcp_init_def)
qed

text \<open>
  C3, as the code has it. The STREAM handler compares its first argument in upper case.
  START: \<open>OK#STREAM#STARTED\<close>, the flag set and one broadcast loop started, when not
  streaming; \<open>OK#STREAM#ALREADY_RUNNING\<close> and no change when streaming. STOP:
  \<open>OK#STREAM#STOPPED\<close> and the flag cleared when streaming; \<open>OK#STREAM#NOT_RUNNING\<close> and no
  change when not. Any other token \<open>T\<close>: \<open>ERROR#Unknown streaming command: \<close> followed by
  \<open>T\<close> in upper case. No argument: \<open>ERROR#Missing streaming command (START/STOP)\<close>.
\<close>

theorem stream_command_handler:
  "(handle_stream_command [] s = (''ERROR#Missing streaming command (START/STOP)'', s)) \<and>
   (upper a = ''START'' \<and> \<not> streaming s \<longrightarrow>
      fst (handle_stream_command (a # rest) s) = ''OK#STREAM#STARTED'' \<and>
      streaming (snd (handle_stream_command (a # rest) s)) \<and>
      video_loops (snd (handle_stream_command (a # rest) s)) = Suc (video_loops s) \<and>
      is_streaming (camera (snd (handle_stream_command (a # rest) s)))) \<and>
   (upper a = ''START'' \<and> streaming s \<longrightarrow>
      handle_stream_command (a # rest) s = (''OK#STREAM#ALREADY_RUNNING'', s)) \<and>
   (upper a = ''STOP'' \<and> streaming s \<longrightarrow>
      fst (handle_stream_command (a # rest) s) = ''OK#STREAM#STOPPED'' \<and>
      \<not> streaming (snd (handle_stream_command (a # rest) s)) \<and>
      video_loops (snd (handle_stream_command (a # rest) s)) = video_loops s) \<and>
   (upper a = ''STOP'' \<and> \<not> streaming s \<longrightarrow>
      handle_stream_command (a # rest) s = (''OK#STREAM#NOT_RUNNING'', s)) \<and>
   (upper a \<noteq> ''START'' \<and> upper a \<noteq> ''STOP'' \<longrightarrow>
      handle_stream_command (a # rest) s = (''ERROR#Unknown streaming command: '' @ upper a, s))"
  by (simp add: handle_stream_command_def start_video_streaming_def stop_video_streaming_def
      start_streaming_def Let_def)

theorem stream_command_handler_witness:
  "upper ''start'' = ''START'' \<and> \<not> streaming car0 \<and>
   fst (handle_stream_command [''start''] car0) = ''OK#STREAM#STARTED'' \<and>
   streaming (snd (handle_stream_command [''start''] car0)) \<and>
   video_loops (snd (handle_stream_command [''start''] car0)) = 1 \<and>
   streaming (car0\<lparr>streaming := True\<rparr>) \<and>
   handle_stream_command [''start''] (car0\<lparr>streaming := True\<rparr>) =
     (''OK#STREAM#ALREADY_RUNNING'', car0\<lparr>streaming := True\<rparr>) \<and>
   upper ''Stop'' = ''STOP'' \<and>
   fst (handle_stream_command [''Stop''] (car0\<lparr>streaming := True\<rparr>)) = ''OK#STREAM#STOPPED'' \<and>
   \<not> streaming (snd (handle_stream_command [''Stop''] (car0\<lparr>streaming := True\<rparr>))) \<and>
   handle_stream_command [''Stop''] car0 = (''OK#STREAM#NOT_RUNNING'', car0) \<and>
   upper ''pause'' = ''PAUSE'' \<and> ''PAUSE'' \<noteq> ''START'' \<and> ''PAUSE'' \<noteq> ''STOP'' \<and>
   handle_stream_command [''pause''] car0 = (''ERROR#Unknown streaming command: PAUSE'', car0)"
proof -
  have u: "upper ''start'' = ''START''" "upper ''Stop'' = ''STOP''" "upper ''pause'' = ''PAUSE''"
    by code_simp+
  have s0: "\<not> streaming car0" "streaming (car0\<lparr>streaming := True\<rparr>)" "video_loops car0 = 0"
    by (simp_all add: car0_def car_init_def)
  show ?thesis
    using stream_command_handler [of car0 "''start''" "[]"]
      stream_command_handler [of "car0\<lparr>streaming := True\<rparr>" "''start''" "[]"]
      stream_command_handler [of "car0\<lparr>streaming := True\<rparr>" "''Stop''" "[]"]
      stream_command_handler [of car0 "''Stop''" "[]"]
      stream_command_handler [of car0 "''pause''" "[]"]
      u s0
    by simp
qed

text \<open>
  C3, the claim as worded (the token echoed as sent) fails: for the token \<open>pause\<close> the
  response names \<open>PAUSE\<close>.
\<close>

theorem stream_unknown_token_counterexample:
  "fst (handle_stream_command [''pause''] car0) \<noteq> ''ERROR#Unknown streaming command: '' @ ''pause''"
proof -
  have "upper ''pause'' = ''PAUSE''" by code_simp
  then show ?thesis
    by (simp add: handle_stream_command_def Let_def)
qed

lemma le_value_four:
  "le_value [b0, b1, b2, b3] = unat b0 + 256 * (unat b1 + 256 * (unat b2 + 256 * unat b3))"
  by (simp add: le_value_def)

lemma le_digits:
  fixes n :: nat
  assumes "n < 2 ^ 32"
  shows "n mod 256 + 256 * (n div 2 ^ 8 mod 256 + 256 * (n div 2 ^ 16 mod 256 + 256 * (n div 2 ^ 24 mod 256))) = n"
proof -
  have a: "n div 2 ^ 24 mod 256 = n div 2 ^ 24"
    using assms by (simp add: less_mult_imp_div_less)
  have b: "n div 2 ^ 16 mod 256 + 256 * (n div 2 ^ 24) = n div 2 ^ 16"
    using div_mult2_eq [of n "2 ^ 16" 256] by (simp add: mod_mult_div_eq mult.commute)
  have c: "n div 2 ^ 8 mod 256 + 256 * (n div 2 ^ 16) = n div 2 ^ 8"
    using div_mult2_eq [of n "2 ^ 8" 256] by (simp add: mod_mult_div_eq mult.commute)
  have d: "n mod 256 + 256 * (n div 2 ^ 8) = n"
    by simp
  show ?thesis
    by (simp only: a b c d)
qed

lemma pack_L_ok:
  assumes "n < 2 ^ 32"
  shows "\<exists>size_data. pack_L n = Inr size_data \<and> length size_data = 4 \<and> le_value size_data = n"
  using assms le_digits [OF assms]
  by (simp add: pack_L_def le_value_four unat_of_nat)

lemma pack_L_too_long:
  assumes "2 ^ 32 \<le> n"
  shows "\<exists>e. pack_L n = Inl e"
  using assms by (simp add: pack_L_def)

lemma conformance_reader_frame:
  assumes "length size_data = 4" "le_value size_data = length p"
  shows "conformance_reader (size_data @ p @ rest) = Some (p, rest)"
  using assms by (simp add: conformance_reader_def)


lemma snd_send_frames_Cons:
  "snd (send_frames sd fd ((c, a) # cs) st) =
     (case sendall sd (st c) of
        Inl e \<Rightarrow> snd (send_frames sd fd cs st)
      | Inr k1 \<Rightarrow>
          (case sendall fd k1 of
             Inl e \<Rightarrow> snd (send_frames sd fd cs (st(c := k1)))
           | Inr k2 \<Rightarrow> snd (send_frames sd fd cs (st(c := k2)))))"
  by (simp add: case_prod_beta split: sum.splits)

lemma fst_send_frames_Cons:
  "fst (send_frames sd fd ((c, a) # cs) st) =
     (case sendall sd (st c) of
        Inl e \<Rightarrow> c # fst (send_frames sd fd cs st)
      | Inr k1 \<Rightarrow>
          (case sendall fd k1 of
             Inl e \<Rightarrow> c # fst (send_frames sd fd cs (st(c := k1)))
           | Inr k2 \<Rightarrow> fst (send_frames sd fd cs (st(c := k2)))))"
  by (simp add: case_prod_beta split: sum.splits)

lemma send_frames_other:
  assumes "c \<notin> fst ` set cs"
  shows "snd (send_frames sd fd cs st) c = st c"
  using assms
proof (induction cs arbitrary: st)
  case Nil
  then show ?case by simp
next
  case (Cons x cs)
  obtain c' a' where x: "x = (c', a')" by (cases x)
  have ne: "c' \<noteq> c" and notin: "c \<notin> fst ` set cs"
    using Cons.prems x by auto
  show ?case
    unfolding x snd_send_frames_Cons
    using ne Cons.IH [OF notin] by (simp split: sum.splits)
qed

lemma send_frames_failed_subset:
  "set (fst (send_frames sd fd cs st)) \<subseteq> fst ` set cs"
proof (induction cs arbitrary: st)
  case Nil
  then show ?case by simp
next
  case (Cons x cs)
  obtain c' a' where x: "x = (c', a')" by (cases x)
  show ?case
    unfolding x fst_send_frames_Cons
    using Cons.IH by (auto split: sum.splits)
qed

lemma sendall_two:
  assumes "two_sends_ok k"
  shows "\<exists>k1 k2. sendall sd k = Inr k1 \<and> sendall fd k1 = Inr k2 \<and>
           sent k2 = sent k @ [sd, fd] \<and> \<not> sock_closed k2"
proof (cases "fail_after k")
  case None
  then show ?thesis using assms by (simp add: two_sends_ok_def sendall_def)
next
  case (Some n)
  then obtain m where "n = Suc (Suc m)"
    using assms by (cases n; simp add: two_sends_ok_def) (rename_tac n', case_tac n'; simp)
  then show ?thesis using assms Some by (simp add: two_sends_ok_def sendall_def)
qed

lemma send_frames_client:
  assumes "(c, a) \<in> set cs" "distinct (map fst cs)" "two_sends_ok (st c)"
  shows "sent (snd (send_frames sd fd cs st) c) = sent (st c) @ [sd, fd] \<and>
         \<not> sock_closed (snd (send_frames sd fd cs st) c) \<and>
         c \<notin> set (fst (send_frames sd fd cs st))"
  using assms
proof (induction cs arbitrary: st)
  case Nil
  then show ?case by simp
next
  case (Cons x cs)
  obtain c' a' where x: "x = (c', a')" by (cases x)
  show ?case
  proof (cases "c' = c")
    case True
    obtain k1 k2 where k: "sendall sd (st c) = Inr k1" "sendall fd k1 = Inr k2"
        "sent k2 = sent (st c) @ [sd, fd]" "\<not> sock_closed k2"
      using sendall_two [OF Cons.prems(3)] by blast
    have notin: "c \<notin> fst ` set cs"
      using Cons.prems(2) x True by auto
    have rest: "snd (send_frames sd fd cs (st(c := k2))) c = k2"
      using send_frames_other [OF notin] by simp
    have nofail: "c \<notin> set (fst (send_frames sd fd cs (st(c := k2))))"
      using send_frames_failed_subset notin by blast
    show ?thesis
      unfolding x True snd_send_frames_Cons fst_send_frames_Cons
      using k rest nofail by simp
  next
    case False
    then have mem: "(c, a) \<in> set cs" using Cons.prems(1) x by auto
    have dist: "distinct (map fst cs)" using Cons.prems(2) by simp
    have ih: "sent (snd (send_frames sd fd cs st') c) = sent (st c) @ [sd, fd] \<and>
         \<not> sock_closed (snd (send_frames sd fd cs st') c) \<and>
         c \<notin> set (fst (send_frames sd fd cs st'))" if "st' c = st c" for st'
      using Cons.IH [OF mem dist, of st'] Cons.prems(3) that by simp
    show ?thesis
      unfolding x snd_send_frames_Cons fst_send_frames_Cons
      using False ih by (simp split: sum.splits)
  qed
qed

lemma remove_failed_sent:
  "sent (sockets (remove_failed rm srv) c) = sent (sockets srv c)"
  by (induction rm arbitrary: srv) (simp_all add: close_socket_def close_sock_def)

lemma remove_failed_keeps:
  assumes "c \<notin> set rm"
  shows "sock_closed (sockets (remove_failed rm srv) c) = sock_closed (sockets srv c) \<and>
         ((c, a) \<in> set (video_clients (remove_failed rm srv)) \<longleftrightarrow> (c, a) \<in> set (video_clients srv))"
  using assms
  by (induction rm arbitrary: srv) (auto simp add: close_socket_def close_sock_def AList.delete_eq)


text \<open>
  C4. For a frame payload \<open>p\<close> whose length fits four bytes, \<open>send_video_data\<close> hands every
  registered video client whose socket takes the two sends exactly two consecutive
  writes: the four-byte little-endian encoding of the length of \<open>p\<close>, then \<open>p\<close>. The
  conformance reader recovers \<open>p\<close> from these bytes, whatever follows them. The lengths
  0, 1 and 65536 are instances.
\<close>

theorem video_frame_framing:
  assumes "(c, a) \<in> set (video_clients srv)"
    and "distinct (map fst (video_clients srv))"
    and "two_sends_ok (sockets srv c)"
    and "length p < 2 ^ 32"
  shows "\<exists>size_data srv'.
           send_video_data p srv = Inr (True, srv') \<and>
           pack_L (length p) = Inr size_data \<and>
           length size_data = 4 \<and> le_value size_data = length p \<and>
           sent (sockets srv' c) = sent (sockets srv c) @ [size_data, p] \<and>
           conformance_reader (size_data @ p @ rest) = Some (p, rest) \<and>
           (c, a) \<in> set (video_clients srv') \<and> \<not> sock_closed (sockets srv' c)"
proof -
  obtain size_data where sd: "pack_L (length p) = Inr size_data" "length size_data = 4"
      "le_value size_data = length p"
    using pack_L_ok [OF assms(4)] by blast
  define rm where "rm = fst (send_frames size_data p (video_clients srv) (sockets srv))"
  define st where "st = snd (send_frames size_data p (video_clients srv) (sockets srv))"
  define srv' where "srv' = remove_failed rm (srv\<lparr>sockets := st\<rparr>)"
  have ne: "video_clients srv \<noteq> []" using assms(1) by auto
  have run: "send_video_data p srv = Inr (True, srv')"
    using ne sd(1) by (simp add: send_video_data_def srv'_def rm_def st_def case_prod_beta)
  have cl: "sent (st c) = sent (sockets srv c) @ [size_data, p]" "\<not> sock_closed (st c)" "c \<notin> set rm"
    using send_frames_client [where st = "sockets srv" and sd = size_data and fd = p, OF assms(1-3)]
    by (simp_all add: st_def rm_def)
  have w: "sent (sockets srv' c) = sent (sockets srv c) @ [size_data, p]"
    using cl(1) by (simp add: srv'_def remove_failed_sent)
  have k: "(c, a) \<in> set (video_clients srv')" "\<not> sock_closed (sockets srv' c)"
    using remove_failed_keeps [OF cl(3), of "srv\<lparr>sockets := st\<rparr>" a] assms(1) cl(2)
    by (simp_all add: srv'_def)
  show ?thesis
    using run sd w k conformance_reader_frame [OF sd(2,3), of rest] by blast
qed

theorem video_frame_framing_witness:
  "(7, (''192.168.1.9'', 40000)) \<in> set (video_clients srv1) \<and>
   distinct (map fst (video_clients srv1)) \<and> two_sends_ok (sockets srv1 7) \<and>
   length ([] :: byte list) < 2 ^ 32 \<and> length [0xFF :: byte] < 2 ^ 32 \<and>
   length (replicate 65536 (0xD8 :: byte)) < 2 ^ 32 \<and>
   (\<exists>srv'. send_video_data [] srv1 = Inr (True, srv') \<and>
      sent (sockets srv' 7) = [[0, 0, 0, 0], []]) \<and>
   conformance_reader ([0, 0, 0, 0] @ []) = Some ([], []) \<and>
   (\<exists>srv'. send_video_data [0xFF] srv1 = Inr (True, srv') \<and>
      sent (sockets srv' 7) = [[1, 0, 0, 0], [0xFF]]) \<and>
   conformance_reader ([1, 0, 0, 0] @ [0xFF]) = Some ([0xFF], []) \<and>
   (\<exists>srv'. send_video_data (replicate 65536 0xD8) srv1 = Inr (True, srv') \<and>
      sent (sockets srv' 7) = [[0, 0, 1, 0], replicate 65536 0xD8]) \<and>
   conformance_reader ([0, 0, 1, 0] @ replicate 65536 0xD8) = Some (replicate 65536 0xD8, [])"
proof -
  have h1: "(7, (''192.168.1.9'', 40000)) \<in> set (video_clients srv1)"
    and h2: "distinct (map fst (video_clients srv1))"
    and h3: "two_sends_ok (sockets srv1 7)"
    and h0: "sent (sockets srv1 7) = []"
    by (simp_all add: srv1_def accept_video_client_def tcp_init_def new_sock_def two_sends_ok_def)
  have l0: "length ([] :: byte list) < 2 ^ 32" and l1: "length [0xFF :: byte] < 2 ^ 32"
    and l2: "length (replicate 65536 (0xD8 :: byte)) < 2 ^ 32"
    by simp_all
  have p0: "pack_L 0 = Inr [0, 0, 0, 0]" and p1: "pack_L 1 = Inr [1, 0, 0, 0]"
    and p2: "pack_L 65536 = Inr [0, 0, 1, 0]"
    by (simp_all add: pack_L_def)
  have w0: "(\<exists>srv'. send_video_data [] srv1 = Inr (True, srv') \<and>
      sent (sockets srv' 7) = [[0, 0, 0, 0], []]) \<and>
      conformance_reader ([0, 0, 0, 0] @ []) = Some ([], [])"
    using video_frame_framing [OF h1 h2 h3 l0, of "[]"] h0 p0 by auto
  have w1: "(\<exists>srv'. send_video_data [0xFF] srv1 = Inr (True, srv') \<and>
      sent (sockets srv' 7) = [[1, 0, 0, 0], [0xFF]]) \<and>
      conformance_reader ([1, 0, 0, 0] @ [0xFF]) = Some ([0xFF], [])"
    using video_frame_framing [OF h1 h2 h3 l1, of "[]"] h0 p1 by auto
  have w2: "(\<exists>srv'. send_video_data (replicate 65536 0xD8) srv1 = Inr (True, srv') \<and>
      sent (sockets srv' 7) = [[0, 0, 1, 0], replicate 65536 0xD8]) \<and>
      conformance_reader ([0, 0, 1, 0] @ replicate 65536 0xD8) = Some (replicate 65536 0xD8, [])"
    using video_frame_framing [OF h1 h2 h3 l2, of "[]"] h0 p2 by auto
  show ?thesis
    using h1 h2 h3 l0 l1 l2 w0 w1 w2 by blast
qed

lemma send_video_data_too_long:
  assumes "video_clients srv \<noteq> []" "2 ^ 32 \<le> length p"
  shows "\<exists>e. send_video_data p srv = Inl e"
  using assms pack_L_too_long [OF assms(2)] by (auto simp add: send_video_data_def)

lemma send_video_data_no_clients:
  assumes "video_clients srv = []"
  shows "send_video_data p srv = Inr (False, srv)"
  using assms by (simp add: send_video_data_def)

lemma close_socket_fields:
  "command_clients (close_socket c srv) = command_clients srv"
  "video_clients (close_socket c srv) = video_clients srv"
  "max_clients (close_socket c srv) = max_clients srv"
  "client_threads (close_socket c srv) = client_threads srv"
  "message_queue (close_socket c srv) = message_queue srv"
  "sock_closed (sockets (close_socket c srv) c)"
  "sent (sockets (close_socket c srv) c') = sent (sockets srv c')"
  by (simp_all add: close_socket_def close_sock_def)

lemma fold_close_socket_fields:
  "command_clients (fold close_socket cs srv) = command_clients srv"
  "video_clients (fold close_socket cs srv) = video_clients srv"
  "max_clients (fold close_socket cs srv) = max_clients srv"
  by (induction cs arbitrary: srv) (simp_all add: close_socket_fields)

lemma remove_failed_fields:
  "command_clients (remove_failed rm srv) = command_clients srv"
  "max_clients (remove_failed rm srv) = max_clients srv"
  "length (video_clients (remove_failed rm srv)) \<le> length (video_clients srv)"
proof (induction rm arbitrary: srv)
  case Nil
  {
    case 1 show ?case by simp
  next
    case 2 show ?case by simp
  next
    case 3 show ?case by simp
  }
next
  case (Cons c rm)
  {
    case 1 show ?case by (simp add: Cons.IH(1) close_socket_fields)
  next
    case 2 show ?case by (simp add: Cons.IH(2) close_socket_fields)
  next
    case 3
    have "length (video_clients (remove_failed (c # rm) srv)) \<le>
          length (AList.delete c (video_clients srv))"
      using Cons.IH(3) [of "close_socket c (srv\<lparr>video_clients := AList.delete c (video_clients srv)\<rparr>)"]
      by (simp add: close_socket_fields)
    then show ?case
      using length_delete_le [of c "video_clients srv"] by linarith
  }
qed

lemma within_capacity_step:
  assumes "within_capacity srv"
  shows "within_capacity (tcp_step srv ev)"
proof (cases ev)
  case (AcceptCommand c a)
  show ?thesis
  proof (cases "command_clients srv")
    case Nil
    then show ?thesis using assms AcceptCommand
      by (simp add: within_capacity_def accept_command_client_def)
  next
    case (Cons x xs)
    then show ?thesis using assms AcceptCommand
      by (auto simp add: within_capacity_def accept_command_client_def close_socket_fields)
  qed
next
  case (AcceptVideo c a)
  show ?thesis
  proof (cases "video_clients srv")
    case Nil
    then show ?thesis using assms AcceptVideo
      by (simp add: within_capacity_def accept_video_client_def)
  next
    case (Cons x xs)
    then show ?thesis using assms AcceptVideo
      by (auto simp add: within_capacity_def accept_video_client_def close_socket_fields)
  qed
next
  case (ClientReceived a command)
  then show ?thesis using assms
    by (simp add: within_capacity_def client_received_def)
next
  case (ClientFinished c)
  have "length (AList.delete c (command_clients srv)) \<le> length (command_clients srv)"
    by (rule length_delete_le)
  then show ?thesis using assms ClientFinished
    by (auto simp add: within_capacity_def client_finished_def close_socket_fields)
next
  case (SendVideo frame_data)
  show ?thesis
  proof (cases "send_video_data frame_data srv")
    case (Inl e)
    then show ?thesis using assms SendVideo by simp
  next
    case (Inr r)
    obtain ok srv' where r: "r = (ok, srv')" by (cases r)
    have "command_clients srv' = command_clients srv \<and> max_clients srv' = max_clients srv \<and>
          length (video_clients srv') \<le> length (video_clients srv)"
      using Inr r remove_failed_fields(3) [of _ "srv\<lparr>sockets := s\<rparr>" for s]
      by (auto simp add: send_video_data_def remove_failed_fields(1,2) case_prod_beta
          split: if_splits sum.splits)
    then show ?thesis using assms SendVideo Inr r
      by (simp add: within_capacity_def)
  qed
next
  case (SendResponse a response)
  then show ?thesis using assms
    by (simp add: within_capacity_def send_command_response_def Let_def
        split: option.splits sum.splits)
next
  case StopServer
  then show ?thesis using assms
    by (simp add: within_capacity_def stop_server_def Let_def fold_close_socket_fields)
qed

lemma within_capacity_run:
  assumes "within_capacity srv"
  shows "within_capacity (tcp_run srv evs)"
  using assms unfolding tcp_run_def
  by (induction evs arbitrary: srv) (simp_all add: within_capacity_step)

lemma within_capacity_init: "within_capacity (tcp_init st)"
  by (simp add: within_capacity_def tcp_init_def)


text \<open>
  C5. Both registries hold at most \<open>max_clients = 1\<close> client at all times: after any
  sequence of steps of the server's threads from the server as constructed. An accept on
  a channel whose registry is full closes the new socket, starts no read loop on it and
  queues nothing, and leaves both registries and every other socket as they were.
\<close>

theorem registry_capacity:
  "max_clients (tcp_init st) = 1 \<and>
   max_clients (tcp_run (tcp_init st) evs) = 1 \<and>
   length (command_clients (tcp_run (tcp_init st) evs)) \<le> 1 \<and>
   length (video_clients (tcp_run (tcp_init st) evs)) \<le> 1 \<and>
   (length (command_clients srv) \<ge> max_clients srv \<longrightarrow>
      sock_closed (sockets (accept_command_client c a srv) c) \<and>
      command_clients (accept_command_client c a srv) = command_clients srv \<and>
      video_clients (accept_command_client c a srv) = video_clients srv \<and>
      client_threads (accept_command_client c a srv) = client_threads srv \<and>
      message_queue (accept_command_client c a srv) = message_queue srv \<and>
      (\<forall>c'. c' \<noteq> c \<longrightarrow> sockets (accept_command_client c a srv) c' = sockets srv c')) \<and>
   (length (video_clients srv) \<ge> max_clients srv \<longrightarrow>
      sock_closed (sockets (accept_video_client c a srv) c) \<and>
      command_clients (accept_video_client c a srv) = command_clients srv \<and>
      video_clients (accept_video_client c a srv) = video_clients srv \<and>
      client_threads (accept_video_client c a srv) = client_threads srv \<and>
      message_queue (accept_video_client c a srv) = message_queue srv \<and>
      (\<forall>c'. c' \<noteq> c \<longrightarrow> sockets (accept_video_client c a srv) c' = sockets srv c'))"
proof -
  have inv: "within_capacity (tcp_run (tcp_init st) evs)"
    by (rule within_capacity_run [OF within_capacity_init])
  have always: "max_clients (tcp_init st) = 1 \<and>
     max_clients (tcp_run (tcp_init st) evs) = 1 \<and>
     length (command_clients (tcp_run (tcp_init st) evs)) \<le> 1 \<and>
     length (video_clients (tcp_run (tcp_init st) evs)) \<le> 1"
    using inv by (simp add: within_capacity_def tcp_init_def)
  have others: "\<forall>c'. c' \<noteq> c \<longrightarrow> sockets (close_socket c srv) c' = sockets srv c'"
    by (simp add: close_socket_def)
  have cmd: "accept_command_client c a srv = close_socket c srv"
    if "length (command_clients srv) \<ge> max_clients srv"
    using that by (simp add: accept_command_client_def)
  have vid: "accept_video_client c a srv = close_socket c srv"
    if "length (video_clients srv) \<ge> max_clients srv"
    using that by (simp add: accept_video_client_def)
  show ?thesis
    using always cmd vid others by (simp add: close_socket_fields)
qed

theorem registry_capacity_witness:
  "length (command_clients (tcp_run (tcp_init (\<lambda>_. new_sock))
      [AcceptCommand 3 (''192.168.1.7'', 50000), AcceptVideo 7 (''192.168.1.9'', 40000),
       AcceptCommand 4 (''192.168.1.8'', 50001), AcceptVideo 8 (''192.168.1.8'', 40001)])) \<le> 1 \<and>
   length (video_clients (tcp_run (tcp_init (\<lambda>_. new_sock))
      [AcceptCommand 3 (''192.168.1.7'', 50000), AcceptVideo 7 (''192.168.1.9'', 40000),
       AcceptCommand 4 (''192.168.1.8'', 50001), AcceptVideo 8 (''192.168.1.8'', 40001)])) \<le> 1 \<and>
   length (command_clients srv2) \<ge> max_clients srv2 \<and>
   length (video_clients srv2) \<ge> max_clients srv2 \<and>
   command_clients srv2 = [(3, (''192.168.1.7'', 50000))] \<and>
   video_clients srv2 = [(7, (''192.168.1.9'', 40000))] \<and>
   sock_closed (sockets (accept_command_client 4 (''192.168.1.8'', 50001) srv2) 4) \<and>
   command_clients (accept_command_client 4 (''192.168.1.8'', 50001) srv2) = [(3, (''192.168.1.7'', 50000))] \<and>
   client_threads (accept_command_client 4 (''192.168.1.8'', 50001) srv2) = [(3, (''192.168.1.7'', 50000))] \<and>
   sock_closed (sockets (accept_video_client 8 (''192.168.1.8'', 40001) srv2) 8) \<and>
   video_clients (accept_video_client 8 (''192.168.1.8'', 40001) srv2) = [(7, (''192.168.1.9'', 40000))]"
proof -
  have s2: "command_clients srv2 = [(3, (''192.168.1.7'', 50000))]"
    "video_clients srv2 = [(7, (''192.168.1.9'', 40000))]"
    "client_threads srv2 = [(3, (''192.168.1.7'', 50000))]"
    "max_clients srv2 = 1"
    by (simp_all add: srv2_def srv1_def accept_command_client_def accept_video_client_def tcp_init_def)
  have full: "length (command_clients srv2) \<ge> max_clients srv2"
    "length (video_clients srv2) \<ge> max_clients srv2"
    by (simp_all add: s2)
  show ?thesis
    using registry_capacity [of "\<lambda>_. new_sock"
        "[AcceptCommand 3 (''192.168.1.7'', 50000), AcceptVideo 7 (''192.168.1.9'', 40000),
          AcceptCommand 4 (''192.168.1.8'', 50001), AcceptVideo 8 (''192.168.1.8'', 40001)]"
        srv2 4 "(''192.168.1.8'', 50001)"]
      registry_capacity [of "\<lambda>_. new_sock" "[]" srv2 8 "(''192.168.1.8'', 40001)"]
      full s2
    by simp
qed

lemma stranded_blocked: "stranded t c \<Longrightarrow> blocked t c"
  by (auto simp add: stranded_def blocked_def)

lemma stranded_start_streaming:
  assumes "stranded t c"
  shows "stranded t (start_streaming c)"
proof (cases "is_streaming c")
  case True
  then show ?thesis using assms by (simp add: start_streaming_def)
next
  case False
  obtain i where i: "i < length (outputs c)" "t \<in> set (waiting (outputs c ! i))"
    using assms by (auto simp add: stranded_def)
  have o: "outputs (start_streaming c) = outputs c @ [\<lparr>frame = None, waiting = []\<rparr>]"
    and e: "encoding_to (start_streaming c) = Some (length (outputs c))"
    using False by (simp_all add: start_streaming_def initialize_def Let_def)
  have "i < length (outputs (start_streaming c)) \<and>
        t \<in> set (waiting (outputs (start_streaming c) ! i)) \<and>
        encoding_to (start_streaming c) \<noteq> Some i"
    using i by (simp add: o e nth_append)
  then show ?thesis unfolding stranded_def by blast
qed

lemma stranded_stop_streaming:
  assumes "stranded t c"
  shows "stranded t (stop_streaming c)"
  using assms by (auto simp add: stranded_def stop_streaming_def)

lemma stranded_encoder_frame:
  assumes "stranded t c"
  shows "stranded t (encoder_frame buf c)"
proof (cases "encoding_to c")
  case None
  then show ?thesis using assms by (simp add: encoder_frame_def)
next
  case (Some j)
  obtain i where i: "i < length (outputs c)" "t \<in> set (waiting (outputs c ! i))" "i \<noteq> j"
    using assms Some by (auto simp add: stranded_def)
  have "i < length (outputs (encoder_frame buf c)) \<and>
        t \<in> set (waiting (outputs (encoder_frame buf c) ! i)) \<and>
        encoding_to (encoder_frame buf c) \<noteq> Some i"
    using i Some by (simp add: encoder_frame_def)
  then show ?thesis unfolding stranded_def by blast
qed

lemma stranded_get_frame:
  assumes "stranded t c"
  shows "stranded t (snd (get_frame t' c))"
proof -
  obtain i where i: "i < length (outputs c)" "t \<in> set (waiting (outputs c ! i))"
      "encoding_to c \<noteq> Some i"
    using assms by (auto simp add: stranded_def)
  have "i < length (outputs (snd (get_frame t' c))) \<and>
        t \<in> set (waiting (outputs (snd (get_frame t' c)) ! i)) \<and>
        encoding_to (snd (get_frame t' c)) \<noteq> Some i"
  proof (cases "is_streaming c")
    case False
    then show ?thesis using i by (simp add: get_frame_def)
  next
    case True
    show ?thesis
    proof (cases "streaming_output c")
      case None
      then show ?thesis using i True by (simp add: get_frame_def)
    next
      case (Some k)
      show ?thesis
      proof (cases "k = i")
        case True
        then show ?thesis using i Some \<open>is_streaming c\<close> by (simp add: get_frame_def)
      next
        case False
        then show ?thesis using i Some \<open>is_streaming c\<close> by (simp add: get_frame_def)
      qed
    qed
  qed
  then show ?thesis unfolding stranded_def by blast
qed

lemma stranded_close:
  assumes "stranded t c"
  shows "stranded t (close c)"
  using assms by (auto simp add: stranded_def close_def stop_streaming_def Let_def)

lemma stranded_step:
  assumes "stranded t c"
  shows "stranded t (cam_step c ev)"
  using assms
  by (cases ev)
     (simp_all add: stranded_start_streaming stranded_stop_streaming stranded_encoder_frame
        stranded_get_frame stranded_close)

lemma stranded_run:
  assumes "stranded t c"
  shows "stranded t (cam_run c evs)"
  using assms unfolding cam_run_def
  by (induction evs arbitrary: c) (simp_all add: stranded_step)

lemma stop_streaming_strands:
  assumes "blocked t c" "is_streaming c" "camera_open c"
  shows "stranded t (stop_streaming c)"
  using assms by (auto simp add: blocked_def stranded_def stop_streaming_def)


text \<open>
  C9, as the code has it. \<open>get_frame\<close> called while streaming is inactive returns \<open>None\<close>
  at once. Called while streaming is active it blocks on the condition of the current
  output. A blocked caller is released by the next frame the encoder writes to that output
  (\<open>write\<close> notifies all waiters). \<open>stop_streaming\<close> notifies nobody: it leaves every
  output, with its waiters, as it was, so a caller blocked at that moment is stranded,
  and stays blocked whatever the threads do afterwards.
\<close>

theorem frame_read_blocking:
  "(\<not> is_streaming c \<longrightarrow> get_frame t c = (Returned None, c)) \<and>
   (is_streaming c \<and> streaming_output c = Some i \<and> i < length (outputs c) \<longrightarrow>
      fst (get_frame t c) = Blocked \<and> blocked t (snd (get_frame t c))) \<and>
   (encoding_to c = Some i \<and> i < length (outputs c) \<longrightarrow>
      waiting (outputs (encoder_frame buf c) ! i) = [] \<and>
      frame (outputs (encoder_frame buf c) ! i) = Some buf) \<and>
   outputs (stop_streaming c) = outputs c \<and>
   (blocked t c \<and> is_streaming c \<and> camera_open c \<longrightarrow>
      \<not> is_streaming (stop_streaming c) \<and> stranded t (stop_streaming c)) \<and>
   (stranded t c \<longrightarrow> blocked t (cam_run c evs))"
proof -
  have a: "get_frame t c = (Returned None, c)" if "\<not> is_streaming c"
    using that by (simp add: get_frame_def)
  have b: "fst (get_frame t c) = Blocked \<and> blocked t (snd (get_frame t c))"
    if "is_streaming c" "streaming_output c = Some i" "i < length (outputs c)"
  proof -
    have "i < length (outputs (snd (get_frame t c))) \<and>
          t \<in> set (waiting (outputs (snd (get_frame t c)) ! i))"
      using that by (simp add: get_frame_def)
    then have "blocked t (snd (get_frame t c))" unfolding blocked_def by blast
    then show ?thesis using that by (simp add: get_frame_def)
  qed
  have w: "waiting (outputs (encoder_frame buf c) ! i) = [] \<and>
      frame (outputs (encoder_frame buf c) ! i) = Some buf"
    if "encoding_to c = Some i" "i < length (outputs c)"
    using that by (simp add: encoder_frame_def output_write_def)
  have o: "outputs (stop_streaming c) = outputs c"
    by (simp add: stop_streaming_def)
  have s: "\<not> is_streaming (stop_streaming c) \<and> stranded t (stop_streaming c)"
    if "blocked t c" "is_streaming c" "camera_open c"
    using stop_streaming_strands [OF that] that by (simp add: stop_streaming_def)
  have r: "blocked t (cam_run c evs)" if "stranded t c"
    using stranded_blocked [OF stranded_run [OF that]] .
  show ?thesis using a b w o s r by blast
qed

theorem frame_read_blocking_witness:
  "\<not> is_streaming camera_init \<and> get_frame 1 camera_init = (Returned None, camera_init) \<and>
   is_streaming (start_streaming camera_init) \<and>
   streaming_output (start_streaming camera_init) = Some 0 \<and>
   0 < length (outputs (start_streaming camera_init)) \<and>
   fst (get_frame 1 (start_streaming camera_init)) = Blocked \<and>
   blocked 1 cam1 \<and> is_streaming cam1 \<and> camera_open cam1 \<and> encoding_to cam1 = Some 0 \<and>
   waiting (outputs (encoder_frame [0xFF, 0xD8] cam1) ! 0) = [] \<and>
   frame (outputs (encoder_frame [0xFF, 0xD8] cam1) ! 0) = Some [0xFF, 0xD8] \<and>
   \<not> is_streaming (stop_streaming cam1) \<and>
   stranded 1 (stop_streaming cam1) \<and>
   blocked 1 (cam_run (stop_streaming cam1) [StartStreaming, EncoderFrame [0xFF, 0xD8], StopStreaming])"
proof -
  have c0: "\<not> is_streaming camera_init"
    by (simp add: camera_init_def)
  have c1: "is_streaming (start_streaming camera_init)"
    "streaming_output (start_streaming camera_init) = Some 0"
    "0 < length (outputs (start_streaming camera_init))"
    by (simp_all add: camera_init_def start_streaming_def initialize_def Let_def)
  have c2: "is_streaming cam1" "camera_open cam1" "encoding_to cam1 = Some 0"
    "0 < length (outputs cam1)"
    by (simp_all add: cam1_def get_frame_def camera_init_def start_streaming_def initialize_def Let_def)
  have b1: "blocked 1 cam1"
    using frame_read_blocking [of "start_streaming camera_init" 1 0] c1 by (simp add: cam1_def)
  have s1: "stranded 1 (stop_streaming cam1)" "\<not> is_streaming (stop_streaming cam1)"
    using frame_read_blocking [of cam1 1] b1 c2 by simp_all
  show ?thesis
    using frame_read_blocking [of camera_init 1] c0
      frame_read_blocking [of "start_streaming camera_init" 1 0] c1
      frame_read_blocking [of cam1 1 0 "[0xFF, 0xD8]"] c2 b1 s1
      frame_read_blocking [of "stop_streaming cam1" 1 0 "[]"
        "[StartStreaming, EncoderFrame [0xFF, 0xD8], StopStreaming]"]
    by simp
qed

text \<open>
  C9, the claim as worded (stopping releases the waiter) fails: thread 1 blocks in
  \<open>get_frame\<close> while streaming is active; after \<open>stop_streaming\<close> it is still in the
  wait set of the output, and no encoder is left to notify it.
\<close>

theorem stop_streaming_release_counterexample:
  "is_streaming (start_streaming camera_init) \<and>
   fst (get_frame 1 (start_streaming camera_init)) = Blocked \<and>
   waiting (outputs cam1 ! 0) = [1] \<and>
   \<not> is_streaming (stop_streaming cam1) \<and>
   waiting (outputs (stop_streaming cam1) ! 0) = [1] \<and>
   encoding_to (stop_streaming cam1) = None \<and>
   \<not> (\<not> blocked 1 (stop_streaming cam1))"
proof -
  have "waiting (outputs (stop_streaming cam1) ! 0) = [1]"
    "length (outputs (stop_streaming cam1)) = 1"
    by (simp_all add: cam1_def get_frame_def camera_init_def start_streaming_def
        stop_streaming_def initialize_def Let_def)
  then have "blocked 1 (stop_streaming cam1)"
    unfolding blocked_def by simp
  then show ?thesis
    by (simp add: cam1_def get_frame_def camera_init_def start_streaming_def
        stop_streaming_def initialize_def Let_def)
qed

end
